theory Spec2Isabelle
  imports Main
begin

section \<open>Data model of lib/service/icon-delegate.js\<close>

text \<open>
  Objects of the program live in a store: a delegate is named by its address
  (\<open>dref\<close>), so that \<open>===\<close> on delegates is equality of addresses. An icon
  carries its identity in \<open>icon_ref\<close>; \<open>===\<close> on icons is equality of the
  records. \<open>null\<close> and \<open>undefined\<close> are both \<open>None\<close>: the source tells them
  apart nowhere (\<open>null == x\<close>, truthiness tests).
\<close>

type_synonym dref = nat

record icon =
  icon_ref :: nat
  icon_name :: string
  colour :: "string list"

record resource =
  path :: string
  isDirectory :: bool

text \<open>
  The value held by the closure variable \<open>masterDelegate\<close>: a delegate, or
  the payload object \<open>{from, to}\<close> of a did-change-master event, which the
  handler \<open>to => this.master = to\<close> assigns as it receives it.
\<close>

datatype master_val = MDelegate dref | MPayload

datatype event =
    DidDestroy
  | DidChangeIcon "icon option" "icon option"
  | DidChangeMaster "master_val option" "master_val option"

text \<open>
  An Emitter of the atom library, as far as this file uses it: per channel the
  handlers in order of subscription. The only handlers this file subscribes
  are the three relay closures of the master setter; each is named by the
  delegate whose closure it is. What an outside observer of a delegate sees is
  the log \<open>events\<close> of the world.
\<close>

record emitter =
  on_destroy :: "dref list"
  on_change_master :: "dref list"
  on_change_icon :: "dref list"

text \<open>
  A JavaScript array: its \<open>length\<close> and its properties. The array indices are
  the integers from 0 to \<open>2^32 - 2\<close>; a property whose key is another integer
  is kept by the object but is no element of the array, and writing it leaves
  \<open>length\<close> as it is.
\<close>

record jsarray =
  alen :: nat
  slot :: "int \<Rightarrow> icon option"

definition js_empty :: jsarray where
  "js_empty = \<lparr>alen = 0, slot = (\<lambda>_. None)\<rparr>"

definition js_get :: "jsarray \<Rightarrow> int \<Rightarrow> icon option" where
  "js_get a i = slot a i"

definition js_set :: "jsarray \<Rightarrow> int \<Rightarrow> icon option \<Rightarrow> jsarray" where
  "js_set a i v =
     \<lparr>alen = (if 0 \<le> i \<and> i < 4294967295 then max (alen a) (nat i + 1) else alen a),
      slot = (slot a)(i := v)\<rparr>"

record delegate =
  resource :: "resource option"
  disposables :: "nat list option"
  emitter :: "emitter option"
  icons :: "jsarray option"
  numIcons :: int
  currentIcon :: "icon option"
  currentPriority :: int
  destroyed :: bool
  delegated :: bool
  originalIcon :: "icon option"
  masterDelegate :: "master_val option"
  disposable :: "dref option"

text \<open>The tuple \<open>[priority, iconIndex, iconClass, ...colourClasses]\<close> of the cache.\<close>

record cache_tuple =
  c_priority :: int
  c_iconIndex :: int
  c_iconClass :: string
  c_colourClasses :: "string list"

datatype task = RetryDeserialise dref | QueryTask dref

text \<open>
  The world: the store of delegates (the addresses below \<open>next_ref\<close> are
  allocated), \<open>Storage\<close> (\<open>frozen\<close>, \<open>data.icons\<close>),
  \<open>IconTables\<close> (a table is \<open>None\<close> until it has loaded), the callbacks handed
  to \<open>setImmediate\<close> in order, the calls of \<open>StrategyManager.query\<close> in order,
  and the events emitted, in order, each with the delegate that emitted it.

  \<open>strategy\<close> is a parameter: the calls of \<open>add\<close> that \<open>StrategyManager.query\<close>
  makes synchronously for a resource (see \<open>query_body\<close>).
\<close>

record world =
  heap :: "dref \<Rightarrow> delegate"
  next_ref :: dref
  frozen :: bool
  storage_icons :: "string \<Rightarrow> cache_tuple option"
  fileIcons :: "icon list option"
  directoryIcons :: "icon list option"
  immediates :: "task list"
  queries :: "resource option list"
  events :: "(dref \<times> event) list"
  strategy :: "resource \<Rightarrow> (icon \<times> int) list"

datatype error = TypeError

text \<open>
  The result of a call: it returns a value, or throws, both in a world (what
  was written before a throw stays written), or the fuel has run out.
\<close>

datatype 'a res = Ret 'a world | Throw error world | OutOfFuel

definition bind :: "'a res \<Rightarrow> ('a \<Rightarrow> world \<Rightarrow> 'b res) \<Rightarrow> 'b res" where
  "bind m f = (case m of Ret a w \<Rightarrow> f a w | Throw e w \<Rightarrow> Throw e w | OutOfFuel \<Rightarrow> OutOfFuel)"

definition upd :: "dref \<Rightarrow> (delegate \<Rightarrow> delegate) \<Rightarrow> world \<Rightarrow> world" where
  "upd d f w = w\<lparr>heap := (heap w)(d := f (heap w d))\<rparr>"

definition emit_log :: "dref \<Rightarrow> event \<Rightarrow> world \<Rightarrow> world" where
  "emit_log d ev w = w\<lparr>events := events w @ [(d, ev)]\<rparr>"

text \<open>\<open>Array.prototype.indexOf\<close>: the first index holding the icon, or -1.\<close>

fun indexOf :: "icon list \<Rightarrow> icon \<Rightarrow> int" where
  "indexOf [] x = -1"
| "indexOf (y # ys) x = (if y = x then 0 else (let r = indexOf ys x in if r < 0 then -1 else r + 1))"

text \<open>\<open>iconList[iconIndex]\<close>.\<close>

definition table_get :: "icon list \<Rightarrow> int \<Rightarrow> icon option" where
  "table_get xs i = (if 0 \<le> i \<and> nat i < length xs then Some (xs ! nat i) else None)"

text \<open>\<open>isDirectory ? IconTables.directoryIcons : IconTables.fileIcons\<close>.\<close>

definition iconList_of :: "world \<Rightarrow> resource \<Rightarrow> icon list option" where
  "iconList_of w r = (if isDirectory r then directoryIcons w else fileIcons w)"

text \<open>
  The loop of \<open>getCurrentIcon\<close>, \<open>for(let i = this.icons.length - 1; i >= 0; --i)\<close>:
  \<open>scan a k\<close> looks at the indices below \<open>k\<close>, from the highest down.
\<close>

fun scan :: "jsarray \<Rightarrow> nat \<Rightarrow> (nat \<times> icon) option" where
  "scan a 0 = None"
| "scan a (Suc i) = (case js_get a (int i) of Some ic \<Rightarrow> Some (i, ic) | None \<Rightarrow> scan a i)"

section \<open>The relay subscriptions of the master setter\<close>

text \<open>
  \<open>new CompositeDisposable(to.onDidDestroy(..), to.onDidChangeMaster(..),
  to.onDidChangeIcon(..))\<close> for the delegate \<open>s\<close>: \<open>to.onDidDestroy\<close> is no function
  when \<open>to\<close> is an event payload, and \<open>this.emitter.on\<close> reads a property of
  \<open>null\<close> when \<open>to\<close> has been destroyed.
\<close>

definition subscribe :: "dref \<Rightarrow> master_val \<Rightarrow> world \<Rightarrow> unit res" where
  "subscribe s t w =
     (case t of
        MPayload \<Rightarrow> Throw TypeError w
      | MDelegate m \<Rightarrow>
          (case emitter (heap w m) of
             None \<Rightarrow> Throw TypeError w
           | Some em \<Rightarrow>
               Ret () (upd s (\<lambda>D. D\<lparr>disposable := Some m\<rparr>)
                 (upd m (\<lambda>D. D\<lparr>emitter := Some
                    \<lparr>on_destroy = on_destroy em @ [s],
                     on_change_master = on_change_master em @ [s],
                     on_change_icon = on_change_icon em @ [s]\<rparr>\<rparr>) w))))"

text \<open>
  \<open>if(disposable){ disposable.dispose(); disposable = null; }\<close>: the three
  handlers leave the emitter they were subscribed to (nothing happens on an
  emitter that has been disposed).
\<close>

definition dispose_relay :: "dref \<Rightarrow> world \<Rightarrow> world" where
  "dispose_relay s w =
     (case disposable (heap w s) of
        None \<Rightarrow> w
      | Some m \<Rightarrow>
          upd s (\<lambda>D. D\<lparr>disposable := None\<rparr>)
            (case emitter (heap w m) of
               None \<Rightarrow> w
             | Some em \<Rightarrow>
                 upd m (\<lambda>D. D\<lparr>emitter := Some
                    \<lparr>on_destroy = removeAll s (on_destroy em),
                     on_change_master = removeAll s (on_change_master em),
                     on_change_icon = removeAll s (on_change_icon em)\<rparr>\<rparr>) w))"

definition handlers_of :: "emitter \<Rightarrow> event \<Rightarrow> dref list" where
  "handlers_of em ev =
     (case ev of
        DidDestroy \<Rightarrow> on_destroy em
      | DidChangeIcon f t \<Rightarrow> on_change_icon em
      | DidChangeMaster f t \<Rightarrow> on_change_master em)"

section \<open>The methods of IconDelegate\<close>

text \<open>
  The methods call each other and, through the emitter, the handlers of other
  delegates; a ring of delegates makes the source recurse without end. Each
  call spends one unit of fuel.

  \<open>get_currentIcon\<close> is the read of the property \<open>this.currentIcon\<close>: the plain
  field, or, once \<open>Object.defineProperties\<close> has run, the getter
  \<open>masterDelegate ? masterDelegate.getCurrentIcon() : null\<close> (a payload object
  has no method \<open>getCurrentIcon\<close>). The write \<open>this.currentIcon = to\<close> of
  \<open>setCurrentIcon\<close> throws once the property is an accessor with no setter: the
  file is in strict mode.
\<close>

text \<open>
  \<open>this.currentIcon = to; if(null !== priority) this.currentPriority = priority;\<close>
  on a delegate whose \<open>currentIcon\<close> is still a plain field.
\<close>

definition assign_current :: "dref \<Rightarrow> icon option \<Rightarrow> int option \<Rightarrow> world \<Rightarrow> world" where
  "assign_current d to priority w =
     (let w2 = upd d (\<lambda>D. D\<lparr>currentIcon := to\<rparr>) w
      in case priority of
           None \<Rightarrow> w2
         | Some p \<Rightarrow> upd d (\<lambda>D. D\<lparr>currentPriority := p\<rparr>) w2)"

text \<open>
  \<open>if(null == this.icons[priority]) ++this.numIcons; this.icons[priority] = icon;\<close>
  where \<open>a\<close> is the array \<open>this.icons\<close>.
\<close>

definition store_icon :: "dref \<Rightarrow> jsarray \<Rightarrow> icon \<Rightarrow> int \<Rightarrow> world \<Rightarrow> world" where
  "store_icon d a ic priority w =
     (let w1 = (if js_get a priority = None
                then upd d (\<lambda>D. D\<lparr>numIcons := numIcons D + 1\<rparr>) w else w)
      in upd d (\<lambda>D. D\<lparr>icons := Some (js_set a priority (Some ic))\<rparr>) w1)"

record methods =
  m_emit :: "dref \<Rightarrow> event \<Rightarrow> world \<Rightarrow> unit res"
  m_run_handlers :: "dref list \<Rightarrow> event \<Rightarrow> world \<Rightarrow> unit res"
  m_emitIconChange :: "dref \<Rightarrow> icon option \<Rightarrow> icon option \<Rightarrow> world \<Rightarrow> unit res"
  m_get_currentIcon :: "dref \<Rightarrow> world \<Rightarrow> icon option res"
  m_getCurrentIcon :: "dref \<Rightarrow> world \<Rightarrow> icon option res"
  m_setCurrentIcon :: "dref \<Rightarrow> icon option \<Rightarrow> int option \<Rightarrow> world \<Rightarrow> unit res"
  m_serialise :: "dref \<Rightarrow> world \<Rightarrow> unit res"
  m_add :: "dref \<Rightarrow> icon \<Rightarrow> int \<Rightarrow> world \<Rightarrow> unit res"
  m_query :: "dref \<Rightarrow> world \<Rightarrow> unit res"
  m_add_all :: "dref \<Rightarrow> (icon \<times> int) list \<Rightarrow> world \<Rightarrow> unit res"
  m_master_inner :: "dref \<Rightarrow> master_val option \<Rightarrow> world \<Rightarrow> unit res"

text \<open>
  Each body below is one method of the source; \<open>self\<close> holds the methods it
  calls, with the fuel that is left.
\<close>

definition emit_body :: "methods \<Rightarrow> dref \<Rightarrow> event \<Rightarrow> world \<Rightarrow> unit res" where
  "emit_body self d ev w =
     (case emitter (heap w d) of
        None \<Rightarrow> Throw TypeError w
      | Some em \<Rightarrow> m_run_handlers self (handlers_of em ev) ev (emit_log d ev w))"

definition run_handlers_body :: "methods \<Rightarrow> dref list \<Rightarrow> event \<Rightarrow> world \<Rightarrow> unit res" where
  "run_handlers_body self hs ev w =
     (case hs of
        [] \<Rightarrow> Ret () w
      | s # ss \<Rightarrow>
          bind (case ev of
                  DidDestroy \<Rightarrow> m_master_inner self s None w
                | DidChangeMaster f t \<Rightarrow> m_master_inner self s (Some MPayload) w
                | DidChangeIcon f t \<Rightarrow> m_emitIconChange self s f t w)
            (\<lambda>_ w'. m_run_handlers self ss ev w'))"

definition emitIconChange_body ::
  "methods \<Rightarrow> dref \<Rightarrow> icon option \<Rightarrow> icon option \<Rightarrow> world \<Rightarrow> unit res" where
  "emitIconChange_body self d f t w =
     (if emitter (heap w d) \<noteq> None then m_emit self d (DidChangeIcon f t) w else Ret () w)"

definition get_currentIcon_body :: "methods \<Rightarrow> dref \<Rightarrow> world \<Rightarrow> icon option res" where
  "get_currentIcon_body self d w =
     (if delegated (heap w d) then
        (case masterDelegate (heap w d) of
           None \<Rightarrow> Ret None w
         | Some (MDelegate m) \<Rightarrow> m_getCurrentIcon self m w
         | Some MPayload \<Rightarrow> Throw TypeError w)
      else Ret (currentIcon (heap w d)) w)"

definition getCurrentIcon_body :: "methods \<Rightarrow> dref \<Rightarrow> world \<Rightarrow> icon option res" where
  "getCurrentIcon_body self d w =
     bind (m_get_currentIcon self d w) (\<lambda>c w1.
       if c \<noteq> None then m_get_currentIcon self d w1
       else
         bind (if numIcons (heap w1 d) > 0 then
                 (case icons (heap w1 d) of
                    None \<Rightarrow> Throw TypeError w1
                  | Some a \<Rightarrow>
                      (case scan a (alen a) of
                         Some (i, ic) \<Rightarrow>
                           bind (m_setCurrentIcon self d (Some ic) (Some (int i)) w1)
                             (\<lambda>_ w2. Ret (Some ic) w2)
                       | None \<Rightarrow> Ret None w1))
               else Ret None w1)
           (\<lambda>found w2.
              case found of
                Some ic \<Rightarrow> Ret (Some ic) w2
              | None \<Rightarrow> bind (m_query self d w2) (\<lambda>_ w3. m_get_currentIcon self d w3)))"

definition setCurrentIcon_body ::
  "methods \<Rightarrow> dref \<Rightarrow> icon option \<Rightarrow> int option \<Rightarrow> world \<Rightarrow> unit res" where
  "setCurrentIcon_body self d to priority w =
     bind (m_get_currentIcon self d w) (\<lambda>from w1.
       if from \<noteq> to then
         if delegated (heap w1 d) then Throw TypeError w1
         else
           let w3 = assign_current d to priority w1
           in bind (if to = None then
                      (case resource (heap w3 d) of
                         None \<Rightarrow> Throw TypeError w3
                       | Some r \<Rightarrow>
                           if \<not> isDirectory r then m_getCurrentIcon self d w3 else Ret to w3)
                    else Ret to w3)
                (\<lambda>to' w4.
                   bind (m_serialise self d w4) (\<lambda>_ w5. m_emitIconChange self d from to' w5))
       else Ret () w1)"

definition serialise_body :: "methods \<Rightarrow> dref \<Rightarrow> world \<Rightarrow> unit res" where
  "serialise_body self d w =
     (if \<not> frozen w then
        (case resource (heap w d) of
           None \<Rightarrow> Throw TypeError w
         | Some r \<Rightarrow>
             bind (m_get_currentIcon self d w) (\<lambda>c w1.
               case c of
                 Some ic \<Rightarrow>
                   (case resource (heap w1 d) of
                      None \<Rightarrow> Throw TypeError w1
                    | Some r1 \<Rightarrow>
                        (case iconList_of w1 r1 of
                           None \<Rightarrow> Throw TypeError w1
                         | Some iconList \<Rightarrow>
                             Ret () (w1\<lparr>storage_icons := (storage_icons w1)(path r \<mapsto>
                               \<lparr>c_priority = currentPriority (heap w1 d),
                                c_iconIndex = indexOf iconList ic,
                                c_iconClass = icon_name ic,
                                c_colourClasses = colour ic\<rparr>)\<rparr>)))
               | None \<Rightarrow> Ret () (w1\<lparr>storage_icons := (storage_icons w1)(path r := None)\<rparr>)))
      else Ret () w)"

definition add_body :: "methods \<Rightarrow> dref \<Rightarrow> icon \<Rightarrow> int \<Rightarrow> world \<Rightarrow> unit res" where
  "add_body self d ic priority w =
     (case icons (heap w d) of
        None \<Rightarrow> Throw TypeError w
      | Some a \<Rightarrow>
          let w2 = store_icon d a ic priority w
          in if priority \<ge> currentPriority (heap w2 d)
             then m_setCurrentIcon self d (Some ic) (Some priority) w2
             else Ret () w2)"

text \<open>
  Modelled from the spec: \<open>StrategyManager.query\<close> (strategy-manager.js) is not
  among the sources. Section 6: "a function \<open>query(resource)\<close> that
  asynchronously or synchronously causes zero or more \<open>add\<close> calls on the
  matching delegate; no return value is consulted". The call is recorded in
  \<open>queries\<close>; the adds it makes synchronously are those of \<open>strategy\<close>, made on
  the delegate that issued the query; a query for \<open>null\<close> adds nothing.
\<close>

definition query_body :: "methods \<Rightarrow> dref \<Rightarrow> world \<Rightarrow> unit res" where
  "query_body self d w =
     (let r = resource (heap w d); w1 = w\<lparr>queries := queries w @ [r]\<rparr>
      in case r of None \<Rightarrow> Ret () w1 | Some r' \<Rightarrow> m_add_all self d (strategy w r') w1)"

definition add_all_body :: "methods \<Rightarrow> dref \<Rightarrow> (icon \<times> int) list \<Rightarrow> world \<Rightarrow> unit res" where
  "add_all_body self d xs w =
     (case xs of
        [] \<Rightarrow> Ret () w
      | (ic, p) # ys \<Rightarrow> bind (m_add self d ic p w) (\<lambda>_ w'. m_add_all self d ys w'))"

text \<open>
  \<open>to === from\<close> on the values of \<open>masterDelegate\<close>: the payload an emit hands
  to a handler is a new object, the same as no value held before.
\<close>

definition same_value :: "master_val option \<Rightarrow> master_val option \<Rightarrow> bool" where
  "same_value to from = (to = from \<and> to \<noteq> Some MPayload)"

definition master_inner_body ::
  "methods \<Rightarrow> dref \<Rightarrow> master_val option \<Rightarrow> world \<Rightarrow> unit res" where
  "master_inner_body self d to w =
     (let from = masterDelegate (heap w d) in
      if \<not> same_value to from then
        let w1 = upd d (\<lambda>D. D\<lparr>masterDelegate := to\<rparr>) w;
            w2 = dispose_relay d w1
        in bind (case to of None \<Rightarrow> Ret () w2 | Some t \<Rightarrow> subscribe d t w2) (\<lambda>_ w3.
           bind (if emitter (heap w3 d) \<noteq> None
                 then m_emit self d (DidChangeMaster from to) w3 else Ret () w3) (\<lambda>_ w4.
           bind (m_get_currentIcon self d w4) (\<lambda>t w5.
             m_emitIconChange self d (originalIcon (heap w5 d)) t w5)))
      else Ret () w)"

definition no_fuel :: methods where
  "no_fuel =
     \<lparr>m_emit = (\<lambda>d ev w. OutOfFuel),
      m_run_handlers = (\<lambda>hs ev w. OutOfFuel),
      m_emitIconChange = (\<lambda>d f t w. OutOfFuel),
      m_get_currentIcon = (\<lambda>d w. OutOfFuel),
      m_getCurrentIcon = (\<lambda>d w. OutOfFuel),
      m_setCurrentIcon = (\<lambda>d to p w. OutOfFuel),
      m_serialise = (\<lambda>d w. OutOfFuel),
      m_add = (\<lambda>d ic p w. OutOfFuel),
      m_query = (\<lambda>d w. OutOfFuel),
      m_add_all = (\<lambda>d xs w. OutOfFuel),
      m_master_inner = (\<lambda>d to w. OutOfFuel)\<rparr>"

definition unfold_methods :: "methods \<Rightarrow> methods" where
  "unfold_methods self =
     \<lparr>m_emit = emit_body self,
      m_run_handlers = run_handlers_body self,
      m_emitIconChange = emitIconChange_body self,
      m_get_currentIcon = get_currentIcon_body self,
      m_getCurrentIcon = getCurrentIcon_body self,
      m_setCurrentIcon = setCurrentIcon_body self,
      m_serialise = serialise_body self,
      m_add = add_body self,
      m_query = query_body self,
      m_add_all = add_all_body self,
      m_master_inner = master_inner_body self\<rparr>"

primrec fuelled :: "nat \<Rightarrow> methods" where
  "fuelled 0 = no_fuel"
| "fuelled (Suc n) = unfold_methods (fuelled n)"

definition emit :: "nat \<Rightarrow> dref \<Rightarrow> event \<Rightarrow> world \<Rightarrow> unit res" where
  "emit n = m_emit (fuelled n)"

definition emitIconChange ::
  "nat \<Rightarrow> dref \<Rightarrow> icon option \<Rightarrow> icon option \<Rightarrow> world \<Rightarrow> unit res" where
  "emitIconChange n = m_emitIconChange (fuelled n)"

definition getCurrentIcon :: "nat \<Rightarrow> dref \<Rightarrow> world \<Rightarrow> icon option res" where
  "getCurrentIcon n = m_getCurrentIcon (fuelled n)"

definition setCurrentIcon ::
  "nat \<Rightarrow> dref \<Rightarrow> icon option \<Rightarrow> int option \<Rightarrow> world \<Rightarrow> unit res" where
  "setCurrentIcon n = m_setCurrentIcon (fuelled n)"

definition add :: "nat \<Rightarrow> dref \<Rightarrow> icon \<Rightarrow> int \<Rightarrow> world \<Rightarrow> unit res" where
  "add n = m_add (fuelled n)"

definition query :: "nat \<Rightarrow> dref \<Rightarrow> world \<Rightarrow> unit res" where
  "query n = m_query (fuelled n)"

definition master_inner :: "nat \<Rightarrow> dref \<Rightarrow> master_val option \<Rightarrow> world \<Rightarrow> unit res" where
  "master_inner n = m_master_inner (fuelled n)"

definition remove :: "nat \<Rightarrow> dref \<Rightarrow> icon \<Rightarrow> int \<Rightarrow> world \<Rightarrow> unit res" where
  "remove n d ic priority w =
     (if priority \<noteq> 0 then
        (case icons (heap w d) of
           None \<Rightarrow> Throw TypeError w
         | Some a \<Rightarrow>
             if js_get a priority = Some ic then
               let w1 = upd d (\<lambda>D. D\<lparr>icons := Some (js_set a priority None)\<rparr>) w;
                   w2 = upd d (\<lambda>D. D\<lparr>numIcons := numIcons D - 1\<rparr>) w1
               in if currentPriority (heap w2 d) = priority
                  then setCurrentIcon n d None (Some (- 1)) w2
                  else Ret () w2
             else Ret () w)
      else Ret () w)"

definition destroy :: "nat \<Rightarrow> dref \<Rightarrow> world \<Rightarrow> unit res" where
  "destroy n d w =
     (if \<not> destroyed (heap w d) then
        bind (emit n d DidDestroy (upd d (\<lambda>D. D\<lparr>destroyed := True\<rparr>) w)) (\<lambda>_ w1.
          case emitter (heap w1 d) of
            None \<Rightarrow> Throw TypeError w1
          | Some em \<Rightarrow>
              let w2 = upd d (\<lambda>D. D\<lparr>emitter := None\<rparr>) w1
              in (case disposables (heap w2 d) of
                    None \<Rightarrow> Throw TypeError w2
                  | Some ds \<Rightarrow>
                      Ret () (upd d (\<lambda>D. D\<lparr>disposables := None, resource := None,
                                           icons := None\<rparr>) w2)))
      else Ret () w)"

definition deserialise :: "nat \<Rightarrow> dref \<Rightarrow> world \<Rightarrow> unit res" where
  "deserialise n d w =
     (case resource (heap w d) of
        None \<Rightarrow> Throw TypeError w
      | Some r \<Rightarrow>
          (case storage_icons w (path r) of
             None \<Rightarrow> Ret () w
           | Some tup \<Rightarrow>
               (case iconList_of w r of
                  None \<Rightarrow> Ret () (w\<lparr>immediates := immediates w @ [RetryDeserialise d]\<rparr>)
                | Some iconList \<Rightarrow>
                    bind (case table_get iconList (c_iconIndex tup) of
                            None \<Rightarrow>
                              Ret () (w\<lparr>storage_icons := (storage_icons w)(path r := None)\<rparr>)
                          | Some ic \<Rightarrow>
                              if icon_name ic = c_iconClass tup
                              then add n d ic (c_priority tup) w
                              else Ret () (w\<lparr>storage_icons :=
                                     (storage_icons w)(path r := None)\<rparr>))
                      (\<lambda>_ w1. Ret () (w1\<lparr>immediates := immediates w1 @ [QueryTask d]\<rparr>)))))"

text \<open>
  A callback of \<open>setImmediate\<close>, when the event loop runs it:
  \<open>_=> this.deserialise()\<close> or \<open>_=> StrategyManager.query(this.resource)\<close>.
\<close>

definition run_task :: "nat \<Rightarrow> task \<Rightarrow> world \<Rightarrow> unit res" where
  "run_task n t w =
     (case t of RetryDeserialise d \<Rightarrow> deserialise n d w | QueryTask d \<Rightarrow> query n d w)"

text \<open>
  \<open>new IconDelegate(resource)\<close>: the fields of the constructor and the defaults
  of the prototype, at a fresh address, then \<open>this.deserialise()\<close>.
\<close>

definition fresh :: "resource \<Rightarrow> delegate" where
  "fresh r =
     \<lparr>resource = Some r, disposables = Some [],
      emitter = Some \<lparr>on_destroy = [], on_change_master = [], on_change_icon = []\<rparr>,
      icons = Some js_empty, numIcons = 0, currentIcon = None, currentPriority = - 1,
      destroyed = False, delegated = False, originalIcon = None,
      masterDelegate = None, disposable = None\<rparr>"

definition construct :: "nat \<Rightarrow> resource \<Rightarrow> world \<Rightarrow> dref res" where
  "construct n r w =
     (let d = next_ref w;
          w1 = w\<lparr>heap := (heap w)(d := fresh r), next_ref := Suc d\<rparr>
      in bind (deserialise n d w1) (\<lambda>_ w2. Ret d w2))"

text \<open>
  The read of \<open>x.master\<close>: the accessor of the prototype has no getter, so the
  value is \<open>undefined\<close> until the own accessor has been defined.
\<close>

definition get_master :: "dref \<Rightarrow> world \<Rightarrow> master_val option" where
  "get_master d w = (if delegated (heap w d) then masterDelegate (heap w d) else None)"

text \<open>
  The first lines of the setter of the class: \<open>originalIcon\<close> and the closure
  variable \<open>currentIcon\<close> take the value of the field, \<open>masterDelegate\<close> and
  \<open>disposable\<close> start as \<open>null\<close>, and \<open>Object.defineProperties\<close> replaces
  \<open>currentIcon\<close> and \<open>master\<close> by accessors.
\<close>

definition define_accessors :: "dref \<Rightarrow> world \<Rightarrow> world" where
  "define_accessors d w =
     upd d (\<lambda>D. D\<lparr>originalIcon := currentIcon D, delegated := True,
                   masterDelegate := None, disposable := None\<rparr>) w"

text \<open>
  The assignment \<open>x.master = input\<close>: the setter of the class, or, once
  \<open>Object.defineProperties\<close> has run on \<open>x\<close>, the setter defined there.
\<close>

definition set_master :: "nat \<Rightarrow> dref \<Rightarrow> dref option \<Rightarrow> world \<Rightarrow> unit res" where
  "set_master n d input w =
     (if delegated (heap w d) then master_inner n d (map_option MDelegate input) w
      else
        (case input of
           None \<Rightarrow> Ret () w
         | Some m \<Rightarrow>
             if get_master m w = Some (MDelegate d) then Ret () w
             else
               master_inner n d (Some (MDelegate m)) (define_accessors d w)))"

section \<open>Observations and states used in the statements\<close>

definition returned :: "'a res \<Rightarrow> bool" where
  "returned r = (case r of Ret a w \<Rightarrow> True | Throw e w \<Rightarrow> False | OutOfFuel \<Rightarrow> False)"

definition world_of :: "'a res \<Rightarrow> world option" where
  "world_of r = (case r of Ret a w \<Rightarrow> Some w | Throw e w \<Rightarrow> Some w | OutOfFuel \<Rightarrow> None)"

definition value_of :: "'a res \<Rightarrow> 'a option" where
  "value_of r = (case r of Ret a w \<Rightarrow> Some a | Throw e w \<Rightarrow> None | OutOfFuel \<Rightarrow> None)"

text \<open>
  The invariant of \<open>numIcons\<close>. The slots of the array \<open>icons\<close> that are not
  empty are the properties that hold an icon (with priorities from 0 upwards,
  these are elements of the array); \<open>numIcons\<close> is their number. A destroyed
  delegate has no array.
\<close>

definition filled :: "jsarray \<Rightarrow> int set" where
  "filled a = {i. slot a i \<noteq> None}"

definition numIcons_ok :: "delegate \<Rightarrow> bool" where
  "numIcons_ok D =
     (case icons D of
        None \<Rightarrow> True
      | Some a \<Rightarrow> finite (filled a) \<and> numIcons D = int (card (filled a)))"

definition all_ok :: "world \<Rightarrow> bool" where
  "all_ok w = (\<forall>x. numIcons_ok (heap w x))"

text \<open>The world a call ends in, by return or by throw, satisfies the invariant.\<close>

definition keeps :: "'a res \<Rightarrow> bool" where
  "keeps r = (case r of Ret a w \<Rightarrow> all_ok w | Throw e w \<Rightarrow> all_ok w | OutOfFuel \<Rightarrow> True)"

definition ok_methods :: "methods \<Rightarrow> bool" where
  "ok_methods self =
     ((\<forall>d ev w. all_ok w \<longrightarrow> keeps (m_emit self d ev w))
      \<and> (\<forall>hs ev w. all_ok w \<longrightarrow> keeps (m_run_handlers self hs ev w))
      \<and> (\<forall>d f t w. all_ok w \<longrightarrow> keeps (m_emitIconChange self d f t w))
      \<and> (\<forall>d w. all_ok w \<longrightarrow> keeps (m_get_currentIcon self d w))
      \<and> (\<forall>d w. all_ok w \<longrightarrow> keeps (m_getCurrentIcon self d w))
      \<and> (\<forall>d to p w. all_ok w \<longrightarrow> keeps (m_setCurrentIcon self d to p w))
      \<and> (\<forall>d w. all_ok w \<longrightarrow> keeps (m_serialise self d w))
      \<and> (\<forall>d ic p w. all_ok w \<longrightarrow> keeps (m_add self d ic p w))
      \<and> (\<forall>d w. all_ok w \<longrightarrow> keeps (m_query self d w))
      \<and> (\<forall>d xs w. all_ok w \<longrightarrow> keeps (m_add_all self d xs w))
      \<and> (\<forall>d to w. all_ok w \<longrightarrow> keeps (m_master_inner self d to w)))"

text \<open>
  A delegate that is alive, has never been given a master, and has no relay
  of another delegate subscribed to its emitter.
\<close>

definition no_handlers :: emitter where
  "no_handlers = \<lparr>on_destroy = [], on_change_master = [], on_change_icon = []\<rparr>"

definition only_relay :: "dref \<Rightarrow> emitter" where
  "only_relay d = \<lparr>on_destroy = [d], on_change_master = [d], on_change_icon = [d]\<rparr>"

definition standalone :: "world \<Rightarrow> dref \<Rightarrow> bool" where
  "standalone w d =
     (\<not> destroyed (heap w d) \<and> \<not> delegated (heap w d) \<and> resource (heap w d) \<noteq> None
      \<and> icons (heap w d) \<noteq> None \<and> disposables (heap w d) \<noteq> None
      \<and> emitter (heap w d) = Some no_handlers)"

text \<open>
  \<open>serialise\<close> can write: the cache is frozen (nothing is written), or the
  table of the delegate's resource has loaded.
\<close>

definition can_serialise :: "world \<Rightarrow> dref \<Rightarrow> bool" where
  "can_serialise w d =
     (case resource (heap w d) of
        None \<Rightarrow> False
      | Some r \<Rightarrow> frozen w \<or> iconList_of w r \<noteq> None)"

text \<open>
  From \<open>w\<close> to \<open>w'\<close> the delegate \<open>d\<close> is still alive, owns its icon and has no
  relays, the cache can still be written, and its resource and the strategy
  are the same.
\<close>

definition settled :: "world \<Rightarrow> world \<Rightarrow> dref \<Rightarrow> bool" where
  "settled w w' d =
     (standalone w' d \<and> can_serialise w' d \<and> strategy w' = strategy w
      \<and> resource (heap w' d) = resource (heap w d))"

text \<open>
  Section 4.4 of the specification, in its words: serialisation "writes
  (currentPriority, indexOf(currentIcon) in the appropriate table, currentIcon's
  class name, ...currentIcon's colour variants) under the Resource's path key,
  unless the cache store reports itself frozen"; "if there is no current icon,
  the path's cache entry is deleted instead". For a delegate that owns its
  \<open>currentIcon\<close> field.
\<close>

definition cache_entry :: "world \<Rightarrow> dref \<Rightarrow> cache_tuple option" where
  "cache_entry w d =
     (case currentIcon (heap w d) of
        None \<Rightarrow> None
      | Some ic \<Rightarrow>
          (case resource (heap w d) of
             None \<Rightarrow> None
           | Some r \<Rightarrow>
               (case iconList_of w r of
                  None \<Rightarrow> None
                | Some iconList \<Rightarrow>
                    Some \<lparr>c_priority = currentPriority (heap w d),
                          c_iconIndex = indexOf iconList ic,
                          c_iconClass = icon_name ic,
                          c_colourClasses = colour ic\<rparr>)))"

definition serialised :: "dref \<Rightarrow> world \<Rightarrow> world" where
  "serialised d w =
     (if frozen w then w
      else (case resource (heap w d) of
              None \<Rightarrow> w
            | Some r \<Rightarrow> w\<lparr>storage_icons := (storage_icons w)(path r := cache_entry w d)\<rparr>))"

text \<open>
  The store after the delegate \<open>d\<close>, so far without a master, has taken the live
  delegate \<open>m\<close> for its master and subscribed its three relays there; and
  after it has dropped the master \<open>m\<close> again.
\<close>

definition attach :: "dref \<Rightarrow> dref \<Rightarrow> world \<Rightarrow> world" where
  "attach d m w =
     (let w1 = upd d (\<lambda>D. D\<lparr>masterDelegate := Some (MDelegate m)\<rparr>) w
      in case subscribe d (MDelegate m) (dispose_relay d w1) of
           Ret u w2 \<Rightarrow> w2 | Throw e w2 \<Rightarrow> w2 | OutOfFuel \<Rightarrow> w1)"

definition detach :: "dref \<Rightarrow> world \<Rightarrow> world" where
  "detach d w = dispose_relay d (upd d (\<lambda>D. D\<lparr>masterDelegate := None\<rparr>) w)"

text \<open>The fields \<open>destroy\<close> clears, after the destroy event has been emitted.\<close>

definition cleared :: "dref \<Rightarrow> world \<Rightarrow> world" where
  "cleared d w =
     upd d (\<lambda>D. D\<lparr>disposables := None, resource := None, icons := None\<rparr>)
       (upd d (\<lambda>D. D\<lparr>emitter := None\<rparr>) w)"

text \<open>Example objects: two icons of the file table, a file, a directory.\<close>

definition icon_a :: icon where
  "icon_a = \<lparr>icon_ref = 1, icon_name = ''icon-a'', colour = []\<rparr>"

definition icon_b :: icon where
  "icon_b = \<lparr>icon_ref = 2, icon_name = ''icon-b'', colour = [''medium-red'']\<rparr>"

definition file_r :: resource where
  "file_r = \<lparr>path = ''/a/b.txt'', isDirectory = False\<rparr>"

definition dir_r :: resource where
  "dir_r = \<lparr>path = ''/a'', isDirectory = True\<rparr>"

definition link_r :: resource where
  "link_r = \<lparr>path = ''/a/link'', isDirectory = False\<rparr>"

text \<open>
  A world of fresh delegates, of \<open>link_r\<close> at address 2, of \<open>dir_r\<close> at
  address 3 and of \<open>file_r\<close> at address 0 (and at every other address), with
  the tables loaded, an empty cache and a strategy that adds nothing
  synchronously.
\<close>

definition world0 :: world where
  "world0 =
     \<lparr>heap = (\<lambda>_. fresh file_r)(2 := fresh link_r, 3 := fresh dir_r),
      next_ref = 4, frozen = False,
      storage_icons = (\<lambda>_. None), fileIcons = Some [icon_a, icon_b],
      directoryIcons = Some [], immediates = [], queries = [], events = [],
      strategy = (\<lambda>_. [])\<rparr>"

text \<open>
  \<open>world0\<close> after \<open>add(icon_a, 3)\<close> on the delegate at address 0, as
  \<open>add\<close> leaves it (\<open>add_world0\<close> below).
\<close>

definition world_a3 :: world where
  "world_a3 =
     emit_log 0 (DidChangeIcon None (Some icon_a))
       (serialised 0 (assign_current 0 (Some icon_a) (Some 3)
          (store_icon 0 js_empty icon_a 3 world0)))"

text \<open>
  \<open>world_a3\<close> after \<open>add(icon_b, 2)\<close> on the delegate at address 2; then after
  the delegate at 2 has been given the delegate at 0 for its master; then after
  the delegate at 0 has been destroyed.
\<close>

definition world_ab :: world where
  "world_ab =
     emit_log 2 (DidChangeIcon None (Some icon_b))
       (serialised 2 (assign_current 2 (Some icon_b) (Some 2)
          (store_icon 2 js_empty icon_b 2 world_a3)))"

definition world_linked :: world where
  "world_linked =
     emit_log 2 (DidChangeIcon (Some icon_b) (Some icon_a))
       (emit_log 2 (DidChangeMaster None (Some (MDelegate 0)))
          (attach 2 0 (define_accessors 2 world_ab)))"

definition world_orphaned :: world where
  "world_orphaned =
     cleared 0
       (emit_log 2 (DidChangeIcon (Some icon_b) None)
         (emit_log 2 (DidChangeMaster (Some (MDelegate 0)) None)
           (detach 2 (emit_log 0 DidDestroy
              (upd 0 (\<lambda>D. D\<lparr>destroyed := True\<rparr>) world_linked)))))"

text \<open>
  The world \<open>add(ic, p)\<close> leaves on a live delegate that owns its icon, has no
  relays and whose array of icons is \<open>a\<close>.
\<close>

definition added :: "dref \<Rightarrow> jsarray \<Rightarrow> icon \<Rightarrow> int \<Rightarrow> world \<Rightarrow> world" where
  "added d a ic p w =
     (let w2 = store_icon d a ic p w in
      if currentPriority (heap w d) \<le> p \<and> currentIcon (heap w d) \<noteq> Some ic
      then emit_log d (DidChangeIcon (currentIcon (heap w d)) (Some ic))
             (serialised d (assign_current d (Some ic) (Some p) w2))
      else w2)"

text \<open>The cache entry of a path is deleted and the query of \<open>d\<close> is scheduled.\<close>

definition discarded :: "dref \<Rightarrow> string \<Rightarrow> world \<Rightarrow> world" where
  "discarded d pth w =
     w\<lparr>storage_icons := (storage_icons w)(pth := None),
       immediates := immediates w @ [QueryTask d]\<rparr>"

text \<open>\<open>world0\<close> after \<open>add(icon_a, 1)\<close> on the delegate of the directory, at address 3.\<close>

definition world_dir :: world where
  "world_dir = added 3 js_empty icon_a 1 world0"

text \<open>The world a live delegate without relays leaves behind when it is destroyed.\<close>

definition torn_down :: "dref \<Rightarrow> world \<Rightarrow> world" where
  "torn_down d w = cleared d (emit_log d DidDestroy (upd d (\<lambda>D. D\<lparr>destroyed := True\<rparr>) w))"

text \<open>
  \<open>world0\<close> with a cache entry for \<open>file_r\<close> that agrees with the file table,
  with one that names a class the table entry no longer has, and with the
  agreeing entry while the file table has not loaded yet.
\<close>

definition world_cached :: world where
  "world_cached =
     world0\<lparr>storage_icons := (\<lambda>_. None)(''/a/b.txt'' \<mapsto>
       \<lparr>c_priority = 3, c_iconIndex = 0, c_iconClass = ''icon-a'', c_colourClasses = []\<rparr>)\<rparr>"

definition world_stale :: world where
  "world_stale =
     world0\<lparr>storage_icons := (\<lambda>_. None)(''/a/b.txt'' \<mapsto>
       \<lparr>c_priority = 3, c_iconIndex = 0, c_iconClass = ''icon-old'', c_colourClasses = []\<rparr>)\<rparr>"

definition world_unloaded :: world where
  "world_unloaded = world_cached\<lparr>fileIcons := None\<rparr>"

text \<open>
  \<open>world_cached\<close> and \<open>world_unloaded\<close> after \<open>deserialise\<close> on the delegate at
  address 0: the cached icon has been added and the query is scheduled; the
  retry is scheduled.
\<close>

definition world_cached_1 :: world where
  "world_cached_1 =
     (emit_log 0 (DidChangeIcon None (Some icon_a))
        (serialised 0 (assign_current 0 (Some icon_a) (Some 3)
           (store_icon 0 js_empty icon_a 3 world_cached))))\<lparr>immediates := [QueryTask 0]\<rparr>"

definition world_unloaded_1 :: world where
  "world_unloaded_1 = world_unloaded\<lparr>immediates := [RetryDeserialise 0]\<rparr>"






text \<open>
  \<open>world_ab\<close> after the delegate at 2 has been given the delegate of the
  directory, at address 3, for its master: a live master that has no icon.
\<close>

definition world_unresolved :: world where
  "world_unresolved =
     emit_log 2 (DidChangeIcon (Some icon_b) None)
       ((emit_log 2 (DidChangeMaster None (Some (MDelegate 3)))
           (attach 2 3 (define_accessors 2 world_ab)))\<lparr>queries := [Some dir_r]\<rparr>)"

text \<open>
  The retry of \<open>deserialise\<close> on a delegate that has been given a master in the
  meantime. \<open>world_link_cached\<close>: \<open>world0\<close> with a cache entry for \<open>link_r\<close> that
  agrees with the file table, while the file table has not loaded yet. Then
  after \<open>deserialise\<close> on the delegate of \<open>link_r\<close>, at address 2 (the retry is
  scheduled); after that delegate has been given the delegate at 0 for its
  master; after the file table has loaded; and after the retry has run.
\<close>

definition world_link_cached :: world where
  "world_link_cached =
     world0\<lparr>storage_icons := (\<lambda>_. None)(''/a/link'' \<mapsto>
       \<lparr>c_priority = 3, c_iconIndex = 0, c_iconClass = ''icon-a'', c_colourClasses = []\<rparr>),
       fileIcons := None\<rparr>"

definition world_link_retry :: world where
  "world_link_retry = world_link_cached\<lparr>immediates := [RetryDeserialise 2]\<rparr>"

definition world_link_delegated :: world where
  "world_link_delegated =
     emit_log 2 (DidChangeIcon None None)
       ((emit_log 2 (DidChangeMaster None (Some (MDelegate 0)))
           (attach 2 0 (define_accessors 2 world_link_retry)))\<lparr>queries := [Some file_r]\<rparr>)"

definition world_link_loaded :: world where
  "world_link_loaded = world_link_delegated\<lparr>fileIcons := Some [icon_a, icon_b]\<rparr>"

definition world_link_thrown :: world where
  "world_link_thrown =
     (store_icon 2 js_empty icon_a 3 world_link_loaded)
       \<lparr>queries := [Some file_r, Some file_r]\<rparr>"

section \<open>The methods, unfolded by one call\<close>

lemma bind_simps [simp]:
  "bind (Ret a w) f = f a w"
  "bind (Throw e w) f = Throw e w"
  "bind OutOfFuel f = OutOfFuel"
  by (simp_all add: bind_def)

lemma same_value_simps [simp]:
  "same_value None from = (from = None)"
  "same_value (Some (MDelegate m)) from = (from = Some (MDelegate m))"
  "same_value (Some MPayload) from = False"
  by (auto simp add: same_value_def)

lemma fuelled_Suc_sel [simp]:
  "m_emit (fuelled (Suc n)) = emit_body (fuelled n)"
  "m_run_handlers (fuelled (Suc n)) = run_handlers_body (fuelled n)"
  "m_emitIconChange (fuelled (Suc n)) = emitIconChange_body (fuelled n)"
  "m_get_currentIcon (fuelled (Suc n)) = get_currentIcon_body (fuelled n)"
  "m_getCurrentIcon (fuelled (Suc n)) = getCurrentIcon_body (fuelled n)"
  "m_setCurrentIcon (fuelled (Suc n)) = setCurrentIcon_body (fuelled n)"
  "m_serialise (fuelled (Suc n)) = serialise_body (fuelled n)"
  "m_add (fuelled (Suc n)) = add_body (fuelled n)"
  "m_query (fuelled (Suc n)) = query_body (fuelled n)"
  "m_add_all (fuelled (Suc n)) = add_all_body (fuelled n)"
  "m_master_inner (fuelled (Suc n)) = master_inner_body (fuelled n)"
  by (simp_all add: unfold_methods_def)

lemma fuelled_0_sel [simp]:
  "m_emit (fuelled 0) = (\<lambda>d ev w. OutOfFuel)"
  "m_run_handlers (fuelled 0) = (\<lambda>hs ev w. OutOfFuel)"
  "m_emitIconChange (fuelled 0) = (\<lambda>d f t w. OutOfFuel)"
  "m_get_currentIcon (fuelled 0) = (\<lambda>d w. OutOfFuel)"
  "m_getCurrentIcon (fuelled 0) = (\<lambda>d w. OutOfFuel)"
  "m_setCurrentIcon (fuelled 0) = (\<lambda>d to p w. OutOfFuel)"
  "m_serialise (fuelled 0) = (\<lambda>d w. OutOfFuel)"
  "m_add (fuelled 0) = (\<lambda>d ic p w. OutOfFuel)"
  "m_query (fuelled 0) = (\<lambda>d w. OutOfFuel)"
  "m_add_all (fuelled 0) = (\<lambda>d xs w. OutOfFuel)"
  "m_master_inner (fuelled 0) = (\<lambda>d to w. OutOfFuel)"
  by (simp_all add: no_fuel_def)

declare fuelled.simps [simp del]

lemma fuelled_Suc_defs [simp]:
  "emit (Suc n) = emit_body (fuelled n)"
  "emitIconChange (Suc n) = emitIconChange_body (fuelled n)"
  "getCurrentIcon (Suc n) = getCurrentIcon_body (fuelled n)"
  "setCurrentIcon (Suc n) = setCurrentIcon_body (fuelled n)"
  "add (Suc n) = add_body (fuelled n)"
  "query (Suc n) = query_body (fuelled n)"
  "master_inner (Suc n) = master_inner_body (fuelled n)"
  by (simp_all add: emit_def emitIconChange_def getCurrentIcon_def setCurrentIcon_def
      add_def query_def master_inner_def)

section \<open>Lemmas: the calls, evaluated\<close>

subsection \<open>What the steps of a method leave unchanged\<close>

lemma heap_upd [simp]: "heap (upd d f w) = (heap w)(d := f (heap w d))"
  and upd_fields [simp]: "frozen (upd d f w) = frozen w" "storage_icons (upd d f w) = storage_icons w"
   "fileIcons (upd d f w) = fileIcons w" "directoryIcons (upd d f w) = directoryIcons w"
   "immediates (upd d f w) = immediates w" "queries (upd d f w) = queries w"
   "events (upd d f w) = events w" "strategy (upd d f w) = strategy w" "next_ref (upd d f w) = next_ref w"
  by (simp_all add: upd_def)

lemma emit_log_fields [simp]:
  "heap (emit_log d ev w) = heap w" "frozen (emit_log d ev w) = frozen w"
  "storage_icons (emit_log d ev w) = storage_icons w"
  "fileIcons (emit_log d ev w) = fileIcons w" "directoryIcons (emit_log d ev w) = directoryIcons w"
  "immediates (emit_log d ev w) = immediates w" "queries (emit_log d ev w) = queries w"
  "events (emit_log d ev w) = events w @ [(d, ev)]" "strategy (emit_log d ev w) = strategy w"
  "next_ref (emit_log d ev w) = next_ref w"
  by (simp_all add: emit_log_def)

lemma serialised_fields [simp]:
  "heap (serialised d w) = heap w" "frozen (serialised d w) = frozen w"
  "fileIcons (serialised d w) = fileIcons w" "directoryIcons (serialised d w) = directoryIcons w"
  "immediates (serialised d w) = immediates w" "queries (serialised d w) = queries w"
  "events (serialised d w) = events w" "strategy (serialised d w) = strategy w"
  "next_ref (serialised d w) = next_ref w"
  by (simp_all add: serialised_def split: option.splits)

lemma assign_current_heap [simp]:
  "heap (assign_current d to p w) =
     (heap w)(d := (heap w d)\<lparr>currentIcon := to,
        currentPriority := (case p of None \<Rightarrow> currentPriority (heap w d) | Some q \<Rightarrow> q)\<rparr>)"
  by (cases p) (simp_all add: assign_current_def)

lemma assign_current_fields [simp]:
  "frozen (assign_current d to p w) = frozen w"
  "storage_icons (assign_current d to p w) = storage_icons w"
  "fileIcons (assign_current d to p w) = fileIcons w"
  "directoryIcons (assign_current d to p w) = directoryIcons w"
  "immediates (assign_current d to p w) = immediates w" "queries (assign_current d to p w) = queries w"
  "events (assign_current d to p w) = events w" "strategy (assign_current d to p w) = strategy w"
  "next_ref (assign_current d to p w) = next_ref w"
  by (cases p; simp add: assign_current_def)+

lemma iconList_of_simps [simp]:
  "iconList_of (upd d f w) r = iconList_of w r"
  "iconList_of (emit_log d ev w) r = iconList_of w r"
  "iconList_of (serialised d w) r = iconList_of w r"
  "iconList_of (assign_current d to p w) r = iconList_of w r"
  by (simp_all add: iconList_of_def)

subsection \<open>setCurrentIcon with an icon\<close>

lemma emitIconChange_standalone:
  "emitter (heap w d) = Some no_handlers \<Longrightarrow>
   emitIconChange_body (fuelled (Suc (Suc n))) d f t w = Ret () (emit_log d (DidChangeIcon f t) w)"
  by (simp add: emitIconChange_body_def emit_body_def run_handlers_body_def handlers_of_def no_handlers_def)

lemma get_currentIcon_own:
  "\<not> delegated (heap w d) \<Longrightarrow> get_currentIcon_body self d w = Ret (currentIcon (heap w d)) w"
  by (simp add: get_currentIcon_body_def)

lemma serialise_own:
  assumes own: "\<not> delegated (heap w d)" and can: "can_serialise w d"
  shows "serialise_body (fuelled (Suc n)) d w = Ret () (serialised d w)"
proof (cases "frozen w")
  case True
  then show ?thesis by (simp add: serialise_body_def serialised_def)
next
  case False
  from can obtain r where r: "resource (heap w d) = Some r"
    by (cases "resource (heap w d)") (simp_all add: can_serialise_def)
  show ?thesis
  proof (cases "currentIcon (heap w d)")
    case None
    then show ?thesis using False r own
      by (simp add: serialise_body_def serialised_def cache_entry_def get_currentIcon_own)
  next
    case (Some ic)
    from can False r obtain tbl where "iconList_of w r = Some tbl"
      by (cases "iconList_of w r") (simp_all add: can_serialise_def)
    then show ?thesis using False r own Some
      by (simp add: serialise_body_def serialised_def cache_entry_def get_currentIcon_own)
  qed
qed

lemma can_serialise_frame [simp]:
  "can_serialise (assign_current d to p w) x = can_serialise w x"
  "can_serialise (serialised d w) x = can_serialise w x"
  "can_serialise (emit_log d ev w) x = can_serialise w x"
  by (simp_all add: can_serialise_def split: option.splits)

lemma standalone_frame [simp]:
  "standalone (assign_current d to p w) x = standalone w x"
  "standalone (serialised d w) x = standalone w x"
  "standalone (emit_log d ev w) x = standalone w x"
  by (simp_all add: standalone_def)

lemma setCurrentIcon_some:
  assumes "standalone w d" "can_serialise w d"
  shows "setCurrentIcon_body (fuelled (Suc (Suc (Suc n)))) d (Some x) p w =
     (if currentIcon (heap w d) = Some x then Ret () w
      else Ret () (emit_log d (DidChangeIcon (currentIcon (heap w d)) (Some x))
                    (serialised d (assign_current d (Some x) p w))))"
proof -
  let ?w3 = "assign_current d (Some x) p w"
  have own: "\<not> delegated (heap w d)" using assms(1) by (simp add: standalone_def)
  have own3: "\<not> delegated (heap ?w3 d)"
    using own by simp
  have ser: "serialise_body (fuelled (Suc (Suc n))) d ?w3 = Ret () (serialised d ?w3)"
    using own3 assms(2) by (intro serialise_own) simp_all
  have "standalone (serialised d ?w3) d" using assms(1) by simp
  then have em: "emitter (heap (serialised d ?w3) d) = Some no_handlers"
    by (simp only: standalone_def)
  have emi: "emitIconChange_body (fuelled (Suc (Suc n))) d (currentIcon (heap w d)) (Some x)
               (serialised d ?w3)
             = Ret () (emit_log d (DidChangeIcon (currentIcon (heap w d)) (Some x)) (serialised d ?w3))"
    using em by (rule emitIconChange_standalone)
  show ?thesis
    unfolding setCurrentIcon_body_def
    apply (simp only: fuelled_Suc_sel get_currentIcon_own [OF own] bind_simps)
    apply (simp only: own Let_def if_False ser emi bind_simps option.simps if_True cong: if_cong)
    apply simp
    done
qed

lemma ge2: "2 \<le> n \<Longrightarrow> \<exists>m. n = Suc (Suc m)" by presburger
lemma ge4: "4 \<le> n \<Longrightarrow> \<exists>m. n = Suc (Suc (Suc (Suc m)))" by presburger
lemma ge5: "5 \<le> n \<Longrightarrow> \<exists>m. n = Suc (Suc (Suc (Suc (Suc m))))" by presburger

lemma setCurrentIcon_again:
  assumes "\<not> delegated (heap w d)" "currentIcon (heap w d) = to" "2 \<le> m"
  shows "setCurrentIcon m d to q w = Ret () w"
proof -
  from assms(3) obtain k where "m = Suc (Suc k)" using ge2 by blast
  with assms(1,2) show ?thesis
    by (simp add: setCurrentIcon_body_def get_currentIcon_own)
qed

lemma world0_standalone: "standalone world0 d" "can_serialise world0 d"
  by (simp_all add: standalone_def can_serialise_def world0_def fresh_def no_handlers_def
      js_empty_def iconList_of_def)


subsection \<open>add\<close>

lemma store_icon_heap [simp]:
  "heap (store_icon d a ic p w) =
     (heap w)(d := (heap w d)\<lparr>numIcons := numIcons (heap w d) + (if js_get a p = None then 1 else 0),
                               icons := Some (js_set a p (Some ic))\<rparr>)"
  by (simp add: store_icon_def)

lemma store_icon_fields [simp]:
  "frozen (store_icon d a ic p w) = frozen w"
  "storage_icons (store_icon d a ic p w) = storage_icons w"
  "fileIcons (store_icon d a ic p w) = fileIcons w"
  "directoryIcons (store_icon d a ic p w) = directoryIcons w"
  "immediates (store_icon d a ic p w) = immediates w" "queries (store_icon d a ic p w) = queries w"
  "events (store_icon d a ic p w) = events w" "strategy (store_icon d a ic p w) = strategy w"
  "next_ref (store_icon d a ic p w) = next_ref w"
  by (simp_all add: store_icon_def)

lemma store_icon_frame [simp]:
  "iconList_of (store_icon d a ic p w) r = iconList_of w r"
  "can_serialise (store_icon d a ic p w) x = can_serialise w x"
  by (simp_all add: iconList_of_def can_serialise_def split: option.splits)

lemma store_icon_standalone [simp]:
  "standalone w x \<Longrightarrow> standalone (store_icon d a ic p w) x"
  by (auto simp add: standalone_def)

text \<open>The world a standalone delegate is left in by \<open>add\<close>.\<close>

lemma add_standalone:
  assumes "standalone w d" "can_serialise w d" "icons (heap w d) = Some a"
  shows "add_body (fuelled (Suc (Suc (Suc (Suc n))))) d ic p w =
     Ret () (let w2 = store_icon d a ic p w in
             if currentPriority (heap w d) \<le> p \<and> currentIcon (heap w d) \<noteq> Some ic
             then emit_log d (DidChangeIcon (currentIcon (heap w d)) (Some ic))
                    (serialised d (assign_current d (Some ic) (Some p) w2))
             else w2)"
proof -
  let ?w2 = "store_icon d a ic p w"
  have s2: "standalone ?w2 d" "can_serialise ?w2 d" using assms by simp_all
  have cur: "currentIcon (heap ?w2 d) = currentIcon (heap w d)"
            "currentPriority (heap ?w2 d) = currentPriority (heap w d)" by simp_all
  show ?thesis
    unfolding add_body_def
    by (simp only: assms(3) option.simps Let_def fuelled_Suc_sel setCurrentIcon_some [OF s2] cur)
       simp
qed

lemma getCurrentIcon_own_some:
  assumes "\<not> delegated (heap w d)" "currentIcon (heap w d) = Some x"
  shows "getCurrentIcon_body (fuelled (Suc n)) d w = Ret (Some x) w"
  using assms by (simp add: getCurrentIcon_body_def get_currentIcon_own)

lemma world0_fields:
  "icons (heap world0 d) = Some js_empty" "currentIcon (heap world0 d) = None"
  "currentPriority (heap world0 d) = - 1" "numIcons (heap world0 d) = 0"
  "resource (heap world0 0) = Some file_r" "resource (heap world0 2) = Some link_r"
  "resource (heap world0 3) = Some dir_r" "events world0 = []" "queries world0 = []"
  by (simp_all add: world0_def fresh_def)

lemma add_world0: "add 5 0 icon_a 3 world0 = Ret () world_a3"
proof -
  have "add (Suc (Suc (Suc (Suc (Suc 0))))) 0 icon_a 3 world0 = Ret () world_a3"
    unfolding fuelled_Suc_defs add_standalone [OF world0_standalone world0_fields(1)]
    by (simp add: world_a3_def world0_fields Let_def)
  then show ?thesis by (simp add: eval_nat_numeral)
qed

lemma world_a3_fields:
  "standalone world_a3 0" "can_serialise world_a3 0"
  "icons (heap world_a3 0) = Some (js_set js_empty 3 (Some icon_a))"
  "currentIcon (heap world_a3 0) = Some icon_a" "currentPriority (heap world_a3 0) = 3"
  "numIcons (heap world_a3 0) = 1"
  by (simp_all add: world_a3_def world0_standalone world0_fields js_get_def js_empty_def)

subsection \<open>The assignment of a master and the destruction of the master\<close>

lemma define_accessors_fields [simp]:
  "heap (define_accessors d w) =
     (heap w)(d := (heap w d)\<lparr>originalIcon := currentIcon (heap w d), delegated := True,
                               masterDelegate := None, disposable := None\<rparr>)"
  "frozen (define_accessors d w) = frozen w"
  "storage_icons (define_accessors d w) = storage_icons w"
  "fileIcons (define_accessors d w) = fileIcons w"
  "directoryIcons (define_accessors d w) = directoryIcons w"
  "immediates (define_accessors d w) = immediates w" "queries (define_accessors d w) = queries w"
  "events (define_accessors d w) = events w" "strategy (define_accessors d w) = strategy w"
  "next_ref (define_accessors d w) = next_ref w"
  by (simp_all add: define_accessors_def)

text \<open>The store after \<open>attach\<close>, when the master is alive and another delegate.\<close>

lemma attach_fields:
  assumes "d \<noteq> m" "emitter (heap w m) = Some em" "disposable (heap w d) = None"
  shows "heap (attach d m w) =
     (heap w)(m := (heap w m)\<lparr>emitter := Some
                      \<lparr>on_destroy = on_destroy em @ [d],
                       on_change_master = on_change_master em @ [d],
                       on_change_icon = on_change_icon em @ [d]\<rparr>\<rparr>,
              d := (heap w d)\<lparr>masterDelegate := Some (MDelegate m), disposable := Some m\<rparr>)"
    and "frozen (attach d m w) = frozen w"
    and "storage_icons (attach d m w) = storage_icons w"
    and "fileIcons (attach d m w) = fileIcons w"
    and "directoryIcons (attach d m w) = directoryIcons w"
    and "immediates (attach d m w) = immediates w" and "queries (attach d m w) = queries w"
    and "events (attach d m w) = events w" and "strategy (attach d m w) = strategy w"
    and "next_ref (attach d m w) = next_ref w"
  using assms by (simp_all add: attach_def dispose_relay_def subscribe_def Let_def)

lemma subscribe_attach:
  assumes "d \<noteq> m" "emitter (heap w m) = Some em" "disposable (heap w d) = None"
  shows "subscribe d (MDelegate m)
           (dispose_relay d (upd d (\<lambda>D. D\<lparr>masterDelegate := Some (MDelegate m)\<rparr>) w))
         = Ret () (attach d m w)"
  using assms by (simp add: attach_def dispose_relay_def subscribe_def Let_def)

lemma emit_no_handlers:
  "emitter (heap w d) = Some no_handlers \<Longrightarrow>
   emit_body (fuelled (Suc n)) d ev w = Ret () (emit_log d ev w)"
  by (cases ev) (simp_all add: emit_body_def run_handlers_body_def handlers_of_def no_handlers_def)

lemma set_master_resolved:
  assumes dm: "d \<noteq> m" and sd: "standalone w d"
    and m: "\<not> delegated (heap w m)" "emitter (heap w m) = Some em" "currentIcon (heap w m) = Some x"
  shows "set_master (Suc (Suc (Suc (Suc n)))) d (Some m) w =
     Ret () (emit_log d (DidChangeIcon (currentIcon (heap w d)) (Some x))
              (emit_log d (DidChangeMaster None (Some (MDelegate m)))
                 (attach d m (define_accessors d w))))"
proof -
  let ?wA = "define_accessors d w"
  let ?w3 = "attach d m ?wA"
  let ?w4 = "emit_log d (DidChangeMaster None (Some (MDelegate m))) ?w3"
  have d: "\<not> delegated (heap w d)" "emitter (heap w d) = Some no_handlers"
    using sd by (simp_all add: standalone_def)
  have mA: "emitter (heap ?wA m) = Some em" "disposable (heap ?wA d) = None"
    using dm m by simp_all
  note att = attach_fields [OF dm mA]
  have sub: "subscribe d (MDelegate m)
           (dispose_relay d (upd d (\<lambda>D. D\<lparr>masterDelegate := Some (MDelegate m)\<rparr>) ?wA))
         = Ret () ?w3" by (rule subscribe_attach [OF dm mA])
  have e3: "emitter (heap ?w3 d) = Some no_handlers" using d by (simp add: att)
  have em3: "emit_body (fuelled (Suc (Suc n))) d (DidChangeMaster None (Some (MDelegate m))) ?w3
               = Ret () ?w4" using e3 by (rule emit_no_handlers)
  have g4: "get_currentIcon_body (fuelled (Suc (Suc n))) d ?w4 = Ret (Some x) ?w4"
    using dm m by (simp add: get_currentIcon_body_def att getCurrentIcon_body_def)
  have e4: "emitter (heap ?w4 d) = Some no_handlers" using e3 by simp
  have o4: "originalIcon (heap ?w3 d) = currentIcon (heap w d)" by (simp add: att)
  have ei: "emitIconChange_body (fuelled (Suc (Suc n))) d (currentIcon (heap w d)) (Some x) ?w4
              = Ret () (emit_log d (DidChangeIcon (currentIcon (heap w d)) (Some x)) ?w4)"
    using e4 by (rule emitIconChange_standalone)
  have gm: "get_master m w \<noteq> Some (MDelegate d)" using m by (simp add: get_master_def)
  have mi: "master_inner_body (fuelled (Suc (Suc (Suc n)))) d (Some (MDelegate m)) ?wA
            = Ret () (emit_log d (DidChangeIcon (currentIcon (heap w d)) (Some x)) ?w4)"
    unfolding master_inner_body_def
    by (simp add: Let_def sub e3 em3 g4 o4 ei)
  show ?thesis
    using d gm mi by (simp add: set_master_def)
qed


lemma getCurrentIcon_via_master:
  assumes "delegated (heap w d)" "masterDelegate (heap w d) = Some (MDelegate m)"
    and "\<not> delegated (heap w m)" "currentIcon (heap w m) = Some x"
  shows "getCurrentIcon_body (fuelled (Suc (Suc (Suc n)))) d w = Ret (Some x) w"
  using assms
  by (simp add: getCurrentIcon_body_def get_currentIcon_body_def)

lemma detach_fields:
  assumes "d \<noteq> m" "disposable (heap w d) = Some m" "emitter (heap w m) = Some em"
  shows "heap (detach d w) =
     (heap w)(m := (heap w m)\<lparr>emitter := Some
                      \<lparr>on_destroy = removeAll d (on_destroy em),
                       on_change_master = removeAll d (on_change_master em),
                       on_change_icon = removeAll d (on_change_icon em)\<rparr>\<rparr>,
              d := (heap w d)\<lparr>masterDelegate := None, disposable := None\<rparr>)"
    and "frozen (detach d w) = frozen w"
    and "storage_icons (detach d w) = storage_icons w"
    and "fileIcons (detach d w) = fileIcons w"
    and "directoryIcons (detach d w) = directoryIcons w"
    and "immediates (detach d w) = immediates w" and "queries (detach d w) = queries w"
    and "events (detach d w) = events w" and "strategy (detach d w) = strategy w"
    and "next_ref (detach d w) = next_ref w"
  using assms by (simp_all add: detach_def dispose_relay_def)

lemma cleared_fields [simp]:
  "heap (cleared d w) =
     (heap w)(d := (heap w d)\<lparr>emitter := None, disposables := None, resource := None,
                               icons := None\<rparr>)"
  "frozen (cleared d w) = frozen w"
  "storage_icons (cleared d w) = storage_icons w"
  "fileIcons (cleared d w) = fileIcons w"
  "directoryIcons (cleared d w) = directoryIcons w"
  "immediates (cleared d w) = immediates w" "queries (cleared d w) = queries w"
  "events (cleared d w) = events w" "strategy (cleared d w) = strategy w"
  "next_ref (cleared d w) = next_ref w"
  by (simp_all add: cleared_def)


text \<open>The handler of the destroy event of a master, run for the delegate \<open>d\<close>.\<close>

lemma master_inner_null:
  assumes dm: "d \<noteq> m"
    and d: "delegated (heap w d)" "masterDelegate (heap w d) = Some (MDelegate m)"
      "disposable (heap w d) = Some m" "emitter (heap w d) = Some no_handlers"
    and m: "emitter (heap w m) = Some em"
  shows "master_inner_body (fuelled (Suc (Suc (Suc n)))) d None w =
     Ret () (emit_log d (DidChangeIcon (originalIcon (heap w d)) None)
              (emit_log d (DidChangeMaster (Some (MDelegate m)) None) (detach d w)))"
proof -
  let ?w2 = "detach d w"
  let ?w4 = "emit_log d (DidChangeMaster (Some (MDelegate m)) None) ?w2"
  note det = detach_fields [OF dm d(3) m]
  have e2: "emitter (heap ?w2 d) = Some no_handlers" using d by (simp add: det)
  have em2: "emit_body (fuelled (Suc (Suc n))) d (DidChangeMaster (Some (MDelegate m)) None) ?w2
               = Ret () ?w4" using e2 by (rule emit_no_handlers)
  have g4: "get_currentIcon_body (fuelled (Suc (Suc n))) d ?w4 = Ret None ?w4"
    using d by (simp add: get_currentIcon_body_def det)
  have e4: "emitter (heap ?w4 d) = Some no_handlers" using e2 by simp
  have o4: "originalIcon (heap ?w2 d) = originalIcon (heap w d)" by (simp add: det)
  have ei: "emitIconChange_body (fuelled (Suc (Suc n))) d (originalIcon (heap w d)) None ?w4
              = Ret () (emit_log d (DidChangeIcon (originalIcon (heap w d)) None) ?w4)"
    using e4 by (rule emitIconChange_standalone)
  show ?thesis
    unfolding master_inner_body_def
    by (simp add: Let_def d(2) e2 em2 g4 o4 ei detach_def [symmetric])
qed


lemma destroy_master:
  assumes dm: "d \<noteq> m"
    and d: "delegated (heap w d)" "masterDelegate (heap w d) = Some (MDelegate m)"
      "disposable (heap w d) = Some m" "emitter (heap w d) = Some no_handlers"
    and m: "\<not> destroyed (heap w m)" "emitter (heap w m) = Some (only_relay d)"
      "disposables (heap w m) = Some ds"
  shows "destroy (Suc (Suc (Suc (Suc (Suc (Suc n)))))) m w =
     Ret () (cleared m
       (emit_log d (DidChangeIcon (originalIcon (heap w d)) None)
         (emit_log d (DidChangeMaster (Some (MDelegate m)) None)
           (detach d (emit_log m DidDestroy (upd m (\<lambda>D. D\<lparr>destroyed := True\<rparr>) w))))))"
proof -
  let ?w0 = "emit_log m DidDestroy (upd m (\<lambda>D. D\<lparr>destroyed := True\<rparr>) w)"
  let ?w1 = "emit_log d (DidChangeIcon (originalIcon (heap w d)) None)
         (emit_log d (DidChangeMaster (Some (MDelegate m)) None) (detach d ?w0))"
  have d0: "delegated (heap ?w0 d)" "masterDelegate (heap ?w0 d) = Some (MDelegate m)"
      "disposable (heap ?w0 d) = Some m" "emitter (heap ?w0 d) = Some no_handlers"
    and m0: "emitter (heap ?w0 m) = Some (only_relay d)"
    and o0: "originalIcon (heap ?w0 d) = originalIcon (heap w d)"
    using dm d m by simp_all
  have mi: "master_inner_body (fuelled (Suc (Suc (Suc n)))) d None ?w0 = Ret () ?w1"
    unfolding master_inner_null [OF dm d0 m0] o0 ..
  note det = detach_fields [OF dm d0(3) m0]
  have em: "emit_body (fuelled (Suc (Suc (Suc (Suc (Suc n)))))) m DidDestroy
              (upd m (\<lambda>D. D\<lparr>destroyed := True\<rparr>) w) = Ret () ?w1"
    using m(2) by (simp add: emit_body_def handlers_of_def only_relay_def run_handlers_body_def mi
        emit_log_def [symmetric])
  have f1: "emitter (heap ?w1 m) \<noteq> None" "disposables (heap ?w1 m) = Some ds"
    using dm m by (simp_all add: det)
  show ?thesis
    using m(1) f1 by (auto simp add: destroy_def em cleared_def Let_def)
qed

lemma getCurrentIcon_orphan_empty:
  assumes "delegated (heap w d)" "masterDelegate (heap w d) = None"
    and "numIcons (heap w d) \<le> 0" "resource (heap w d) = Some r" "strategy w r = []"
  shows "getCurrentIcon_body (fuelled (Suc (Suc (Suc n)))) d w =
           Ret None (w\<lparr>queries := queries w @ [Some r]\<rparr>)"
  using assms
  by (simp add: getCurrentIcon_body_def get_currentIcon_body_def query_body_def add_all_body_def
      Let_def)

lemma getCurrentIcon_orphan_throws:
  assumes "delegated (heap w d)" "masterDelegate (heap w d) = None"
    and "0 < numIcons (heap w d)" "icons (heap w d) = Some a" "scan a (alen a) = Some (i, ic)"
  shows "getCurrentIcon_body (fuelled (Suc (Suc (Suc n)))) d w = Throw TypeError w"
  using assms
  by (simp add: getCurrentIcon_body_def get_currentIcon_body_def setCurrentIcon_body_def)


lemma ge6: "6 \<le> n \<Longrightarrow> \<exists>m. n = Suc (Suc (Suc (Suc (Suc (Suc m)))))" by presburger

lemma world_a3_other:
  "standalone world_a3 d" "can_serialise world_a3 d"
  "d \<noteq> 0 \<Longrightarrow> heap world_a3 d = heap world0 d"
  "strategy world_a3 r = []"
  by (simp_all add: world_a3_def world0_standalone) (simp add: world0_def)

lemma world_ab_fields:
  "standalone world_ab d" "can_serialise world_ab d"
  "currentIcon (heap world_ab 0) = Some icon_a"
  "currentIcon (heap world_ab 2) = Some icon_b"
  "icons (heap world_ab 2) = Some (js_set js_empty 2 (Some icon_b))"
  "numIcons (heap world_ab 2) = 1"
  "resource (heap world_ab 2) = Some link_r"
  by (simp_all add: world_ab_def world_a3_other world_a3_fields world0_fields
      js_get_def js_empty_def)

lemma add_world_a3: "add 5 2 icon_b 2 world_a3 = Ret () world_ab"
proof -
  have i: "icons (heap world_a3 2) = Some js_empty" by (simp add: world_a3_other world0_fields)
  have "add (Suc (Suc (Suc (Suc (Suc 0))))) 2 icon_b 2 world_a3 = Ret () world_ab"
    unfolding fuelled_Suc_defs add_standalone [OF world_a3_other(1,2) i]
    by (simp add: world_ab_def world_a3_other world0_fields Let_def)
  then show ?thesis by (simp add: eval_nat_numeral)
qed

lemma world_linked_fields:
  "set_master 6 2 (Some 0) world_ab = Ret () world_linked"
  "delegated (heap world_linked 2)"
  "masterDelegate (heap world_linked 2) = Some (MDelegate 0)"
  "disposable (heap world_linked 2) = Some 0"
  "emitter (heap world_linked 2) = Some no_handlers"
  "originalIcon (heap world_linked 2) = Some icon_b"
  "\<not> delegated (heap world_linked 0)" "currentIcon (heap world_linked 0) = Some icon_a"
  "\<not> destroyed (heap world_linked 0)" "emitter (heap world_linked 0) = Some (only_relay 2)"
  "disposables (heap world_linked 0) \<noteq> None"
  "icons (heap world_linked 2) = icons (heap world_ab 2)"
  "numIcons (heap world_linked 2) = numIcons (heap world_ab 2)"
proof -
  have six: "6 = Suc (Suc (Suc (Suc (Suc (Suc 0)))))" by simp
  have dm: "(2::nat) \<noteq> 0" by simp
  have s0: "\<not> delegated (heap world_ab 0)" "emitter (heap world_ab 0) = Some no_handlers"
    "\<not> destroyed (heap world_ab 0)" "disposables (heap world_ab 0) \<noteq> None"
    using world_ab_fields(1) [of 0] by (simp_all add: standalone_def)
  have s1: "\<not> delegated (heap world_ab 2)" "emitter (heap world_ab 2) = Some no_handlers"
    using world_ab_fields(1) [of 2] by (simp_all add: standalone_def)
  have mA: "emitter (heap (define_accessors 2 world_ab) 0) = Some no_handlers"
    "disposable (heap (define_accessors 2 world_ab) 2) = None"
    using s0 by simp_all
  note att = attach_fields [OF dm mA]
  have 1: "set_master 6 2 (Some 0) world_ab = Ret () world_linked"
    unfolding six world_linked_def
    using set_master_resolved [OF dm world_ab_fields(1) s0(1,2) world_ab_fields(3)]
    by (simp add: world_ab_fields)
  have d1: "delegated (heap world_linked 2)"
      "masterDelegate (heap world_linked 2) = Some (MDelegate 0)"
      "disposable (heap world_linked 2) = Some 0"
      "emitter (heap world_linked 2) = Some no_handlers"
      "originalIcon (heap world_linked 2) = Some icon_b"
    using s1 by (simp_all add: world_linked_def att world_ab_fields)
  have m1: "\<not> delegated (heap world_linked 0)" "currentIcon (heap world_linked 0) = Some icon_a"
      "\<not> destroyed (heap world_linked 0)" "emitter (heap world_linked 0) = Some (only_relay 2)"
      "disposables (heap world_linked 0) \<noteq> None"
    using s0 by (simp_all add: world_linked_def att world_ab_fields only_relay_def no_handlers_def)
  have hl: "icons (heap world_linked 2) = icons (heap world_ab 2)"
    "numIcons (heap world_linked 2) = numIcons (heap world_ab 2)"
    by (simp_all add: world_linked_def att)
  from 1 d1 m1 hl show
  "set_master 6 2 (Some 0) world_ab = Ret () world_linked"
  "delegated (heap world_linked 2)"
  "masterDelegate (heap world_linked 2) = Some (MDelegate 0)"
  "disposable (heap world_linked 2) = Some 0"
  "emitter (heap world_linked 2) = Some no_handlers"
  "originalIcon (heap world_linked 2) = Some icon_b"
  "\<not> delegated (heap world_linked 0)" "currentIcon (heap world_linked 0) = Some icon_a"
  "\<not> destroyed (heap world_linked 0)" "emitter (heap world_linked 0) = Some (only_relay 2)"
  "disposables (heap world_linked 0) \<noteq> None"
  "icons (heap world_linked 2) = icons (heap world_ab 2)"
  "numIcons (heap world_linked 2) = numIcons (heap world_ab 2)"
    by blast+
qed

subsection \<open>destroy and deserialise\<close>

lemma destroy_standalone:
  assumes "\<not> destroyed (heap w d)" "emitter (heap w d) = Some no_handlers"
    "disposables (heap w d) = Some ds"
  shows "destroy (Suc (Suc n)) d w = Ret () (torn_down d w)"
proof -
  let ?w0 = "upd d (\<lambda>D. D\<lparr>destroyed := True\<rparr>) w"
  have "emitter (heap ?w0 d) = Some no_handlers" using assms by simp
  then have "emit_body (fuelled (Suc n)) d DidDestroy ?w0 = Ret () (emit_log d DidDestroy ?w0)"
    by (rule emit_no_handlers)
  then show ?thesis using assms
    by (simp add: destroy_def torn_down_def cleared_def Let_def)
qed


lemma torn_down_fields [simp]:
  "heap (torn_down d w) =
     (heap w)(d := (heap w d)\<lparr>destroyed := True, emitter := None, disposables := None,
                               resource := None, icons := None\<rparr>)"
  "frozen (torn_down d w) = frozen w"
  "storage_icons (torn_down d w) = storage_icons w"
  "fileIcons (torn_down d w) = fileIcons w"
  "directoryIcons (torn_down d w) = directoryIcons w"
  "immediates (torn_down d w) = immediates w" "queries (torn_down d w) = queries w"
  "events (torn_down d w) = events w @ [(d, DidDestroy)]" "strategy (torn_down d w) = strategy w"
  "next_ref (torn_down d w) = next_ref w"
  by (simp_all add: torn_down_def)

lemma add_added:
  assumes "standalone w d" "can_serialise w d" "icons (heap w d) = Some a" "5 \<le> n"
  shows "add n d ic p w = Ret () (added d a ic p w)"
proof -
  from assms(4) obtain k where "n = Suc (Suc (Suc (Suc (Suc k))))" using ge5 by blast
  then show ?thesis using add_standalone [OF assms(1-3)] by (simp add: added_def)
qed

lemma added_fields [simp]:
  "immediates (added d a ic p w) = immediates w" "queries (added d a ic p w) = queries w"
  "frozen (added d a ic p w) = frozen w" "strategy (added d a ic p w) = strategy w"
  "fileIcons (added d a ic p w) = fileIcons w" "directoryIcons (added d a ic p w) = directoryIcons w"
  "next_ref (added d a ic p w) = next_ref w"
  by (simp_all add: added_def Let_def)

lemma added_frame [simp]:
  "standalone w x \<Longrightarrow> standalone (added d a ic p w) x"
  "can_serialise (added d a ic p w) x = can_serialise w x"
  "iconList_of (added d a ic p w) r = iconList_of w r"
  by (simp_all add: added_def Let_def)

lemma deserialise_standalone:
  assumes sd: "standalone w d" and r: "resource (heap w d) = Some r"
    and c: "storage_icons w (path r) = Some tup" and t: "iconList_of w r = Some tbl"
    and i: "icons (heap w d) = Some a" and n: "5 \<le> n"
  shows "deserialise n d w =
     Ret () (case table_get tbl (c_iconIndex tup) of
               None \<Rightarrow> discarded d (path r) w
             | Some ic \<Rightarrow>
                 if icon_name ic = c_iconClass tup
                 then (added d a ic (c_priority tup) w)
                        \<lparr>immediates := immediates w @ [QueryTask d]\<rparr>
                 else discarded d (path r) w)"
proof -
  have cs: "can_serialise w d" using r t by (simp add: can_serialise_def)
  note A = add_added [OF sd cs i n]
  show ?thesis
    by (simp add: deserialise_def r c t A discarded_def split: option.splits)
qed

text \<open>The entry of the cache after \<open>add\<close> is there when it was there before.\<close>

lemma added_keeps_entry:
  assumes "resource (heap w d) = Some r" "iconList_of w r = Some tbl"
    "storage_icons w (path r) \<noteq> None"
  shows "storage_icons (added d a ic p w) (path r) \<noteq> None"
  using assms by (simp add: added_def Let_def serialised_def cache_entry_def)

lemma world_cached_fields:
  "standalone world_cached 0" "can_serialise world_cached 0"
  "resource (heap world_cached 0) = Some file_r" "path file_r = ''/a/b.txt''"
  "storage_icons world_cached ''/a/b.txt'' =
     Some \<lparr>c_priority = 3, c_iconIndex = 0, c_iconClass = ''icon-a'', c_colourClasses = []\<rparr>"
  "iconList_of world_cached file_r = Some [icon_a, icon_b]"
  "icons (heap world_cached 0) = Some js_empty" "immediates world_cached = []"
  using world0_standalone [of 0]
  by (simp_all add: world_cached_def standalone_def can_serialise_def iconList_of_def
      world0_fields file_r_def) (simp_all add: world0_def)

lemma world_stale_fields:
  "standalone world_stale 0"
  "resource (heap world_stale 0) = Some file_r"
  "storage_icons world_stale ''/a/b.txt'' =
     Some \<lparr>c_priority = 3, c_iconIndex = 0, c_iconClass = ''icon-old'', c_colourClasses = []\<rparr>"
  "iconList_of world_stale file_r = Some [icon_a, icon_b]"
  "icons (heap world_stale 0) = Some js_empty" "immediates world_stale = []"
  using world0_standalone [of 0]
  by (simp_all add: world_stale_def standalone_def can_serialise_def iconList_of_def
      world0_fields file_r_def) (simp_all add: world0_def)

lemma table_get_example:
  "table_get [icon_a, icon_b] 0 = Some icon_a" "icon_name icon_a = ''icon-a''"
  by (simp_all add: table_get_def icon_a_def)

lemma deserialise_world_cached: "deserialise 5 0 world_cached = Ret () world_cached_1"
proof -
  have c: "storage_icons world_cached (path file_r) =
     Some \<lparr>c_priority = 3, c_iconIndex = 0, c_iconClass = ''icon-a'', c_colourClasses = []\<rparr>"
    by (simp add: world_cached_fields)
  have p: "currentPriority (heap world_cached 0) = - 1" "currentIcon (heap world_cached 0) = None"
    by (simp_all add: world_cached_def world0_fields)
  show ?thesis
    unfolding deserialise_standalone [OF world_cached_fields(1,3) c world_cached_fields(6,7) order_refl]
    by (simp add: table_get_example world_cached_1_def added_def p world_cached_fields Let_def)
qed

lemma deserialise_world_unloaded: "deserialise 5 0 world_unloaded = Ret () world_unloaded_1"
  by (simp add: deserialise_def world_unloaded_def world_unloaded_1_def world_cached_fields
      iconList_of_def file_r_def)

lemma world_cached_1_fields:
  "\<not> destroyed (heap world_cached_1 0)" "emitter (heap world_cached_1 0) = Some no_handlers"
  "disposables (heap world_cached_1 0) \<noteq> None" "immediates world_cached_1 = [QueryTask 0]"
  using world_cached_fields(1) by (simp_all add: world_cached_1_def standalone_def)

lemma world_unloaded_1_fields:
  "\<not> destroyed (heap world_unloaded_1 0)" "emitter (heap world_unloaded_1 0) = Some no_handlers"
  "disposables (heap world_unloaded_1 0) \<noteq> None" "immediates world_unloaded_1 = [RetryDeserialise 0]"
  using world_cached_fields(1)
  by (simp_all add: world_unloaded_1_def world_unloaded_def standalone_def)


subsection \<open>setCurrentIcon(null) and the resolution\<close>

lemma setCurrentIcon_null_dir:
  assumes "standalone w d" "can_serialise w d" "currentIcon (heap w d) = Some from"
    "resource (heap w d) = Some r" "isDirectory r"
  shows "setCurrentIcon_body (fuelled (Suc (Suc (Suc n)))) d None p w =
     Ret () (emit_log d (DidChangeIcon (Some from) None) (serialised d (assign_current d None p w)))"
proof -
  let ?w3 = "assign_current d None p w"
  have own: "\<not> delegated (heap w d)" using assms(1) by (simp add: standalone_def)
  have own3: "\<not> delegated (heap ?w3 d)" using own by simp
  have r3: "resource (heap ?w3 d) = Some r" using assms(4) by simp
  have ser: "serialise_body (fuelled (Suc (Suc n))) d ?w3 = Ret () (serialised d ?w3)"
    using own3 assms(2) by (intro serialise_own) simp_all
  have "standalone (serialised d ?w3) d" using assms(1) by simp
  then have em: "emitter (heap (serialised d ?w3) d) = Some no_handlers"
    by (simp only: standalone_def)
  have emi: "emitIconChange_body (fuelled (Suc (Suc n))) d (Some from) None (serialised d ?w3)
             = Ret () (emit_log d (DidChangeIcon (Some from) None) (serialised d ?w3))"
    using em by (rule emitIconChange_standalone)
  show ?thesis
    unfolding setCurrentIcon_body_def
    apply (simp only: fuelled_Suc_sel get_currentIcon_own [OF own] bind_simps assms(3))
    apply (simp only: own Let_def if_False r3 assms(5) ser emi bind_simps option.simps if_True
        simp_thms cong: if_cong)
    done
qed

text \<open>
  The tail of \<open>setCurrentIcon(null)\<close> on a file, once \<open>getCurrentIcon()\<close> has
  returned \<open>to'\<close> in the world \<open>w4\<close>.
\<close>

lemma setCurrentIcon_null_file:
  assumes sd: "standalone w d" and cs: "can_serialise w d"
    and cur: "currentIcon (heap w d) = Some from"
    and r: "resource (heap w d) = Some r" "\<not> isDirectory r"
    and g: "getCurrentIcon_body (fuelled (Suc (Suc n))) d (assign_current d None p w) = Ret to' w4"
    and s4: "standalone w4 d" "can_serialise w4 d"
  shows "setCurrentIcon_body (fuelled (Suc (Suc (Suc n)))) d None p w =
     Ret () (emit_log d (DidChangeIcon (Some from) to') (serialised d w4))"
proof -
  let ?w3 = "assign_current d None p w"
  have own: "\<not> delegated (heap w d)" using sd by (simp add: standalone_def)
  have own4: "\<not> delegated (heap w4 d)" using s4(1) by (simp add: standalone_def)
  have r3: "resource (heap ?w3 d) = Some r" using r(1) by simp
  have ser: "serialise_body (fuelled (Suc (Suc n))) d w4 = Ret () (serialised d w4)"
    using own4 s4(2) by (rule serialise_own)
  have "standalone (serialised d w4) d" using s4(1) by simp
  then have em: "emitter (heap (serialised d w4) d) = Some no_handlers"
    by (simp only: standalone_def)
  have emi: "emitIconChange_body (fuelled (Suc (Suc n))) d (Some from) to' (serialised d w4)
             = Ret () (emit_log d (DidChangeIcon (Some from) to') (serialised d w4))"
    using em by (rule emitIconChange_standalone)
  show ?thesis
    unfolding setCurrentIcon_body_def
    apply (simp only: fuelled_Suc_sel get_currentIcon_own [OF own] bind_simps cur)
    apply (simp only: own Let_def if_False r3 r(2) g ser emi bind_simps option.simps if_True
        simp_thms cong: if_cong)
    done
qed

text \<open>\<open>getCurrentIcon()\<close> with no current icon finds the highest icon of the array.\<close>

lemma getCurrentIcon_found:
  assumes sd: "standalone w d" and cs: "can_serialise w d"
    and cur: "currentIcon (heap w d) = None" and num: "0 < numIcons (heap w d)"
    and a: "icons (heap w d) = Some a" "scan a (alen a) = Some (i, ic)"
  shows "getCurrentIcon_body (fuelled (Suc (Suc (Suc (Suc n))))) d w =
     Ret (Some ic) (emit_log d (DidChangeIcon None (Some ic))
                     (serialised d (assign_current d (Some ic) (Some (int i)) w)))"
proof -
  have own: "\<not> delegated (heap w d)" using sd by (simp add: standalone_def)
  show ?thesis
    unfolding getCurrentIcon_body_def
    by (simp add: get_currentIcon_own [OF own] cur num a setCurrentIcon_some [OF sd cs])
qed

lemma added_resource [simp]: "resource (heap (added d a ic p w) x) = resource (heap w x)"
  by (simp add: added_def Let_def)

lemma added_settled:
  "standalone w d \<Longrightarrow> can_serialise w d \<Longrightarrow> settled w (added d a ic p w) d"
  by (simp add: settled_def)

lemma settled_trans: "settled w w1 d \<Longrightarrow> settled w1 w2 d \<Longrightarrow> settled w w2 d"
  by (simp add: settled_def)

lemma add_all_standalone:
  "standalone w d \<Longrightarrow> can_serialise w d \<Longrightarrow> length xs + 6 \<le> k \<Longrightarrow>
   \<exists>w'. m_add_all (fuelled k) d xs w = Ret () w' \<and> settled w w' d"
proof (induction xs arbitrary: k w)
  case Nil
  then obtain j where "k = Suc j" by (cases k) simp_all
  then show ?case using Nil by (simp add: add_all_body_def settled_def)
next
  case (Cons y ys)
  obtain ic p where y: "y = (ic, p)" by (cases y)
  from Cons.prems(3) obtain j where k: "k = Suc j" by (cases k) simp_all
  from Cons.prems(1) obtain a where a: "icons (heap w d) = Some a"
    by (auto simp add: standalone_def)
  have j5: "5 \<le> j" using Cons.prems(3) k by simp
  have A: "m_add (fuelled j) d ic p w = Ret () (added d a ic p w)"
    using add_added [OF Cons.prems(1,2) a j5] by (simp add: add_def)
  have s: "settled w (added d a ic p w) d" using Cons.prems(1,2) by (rule added_settled)
  then have "standalone (added d a ic p w) d" "can_serialise (added d a ic p w) d"
    by (simp_all add: settled_def)
  moreover have "length ys + 6 \<le> j" using Cons.prems(3) k by simp
  ultimately obtain w' where
    w': "m_add_all (fuelled j) d ys (added d a ic p w) = Ret () w'"
        "settled (added d a ic p w) w' d"
    using Cons.IH by blast
  from settled_trans [OF s w'(2)] w'(1) show ?case
    by (simp add: k add_all_body_def y A)
qed

lemma queries_frame [simp]:
  "iconList_of (w\<lparr>queries := q\<rparr>) r = iconList_of w r"
  "standalone (w\<lparr>queries := q\<rparr>) d = standalone w d"
  "can_serialise (w\<lparr>queries := q\<rparr>) d = can_serialise w d"
  by (simp_all add: iconList_of_def standalone_def can_serialise_def split: option.splits)

lemma query_standalone:
  assumes "standalone w d" "can_serialise w d" "resource (heap w d) = Some r"
    "length (strategy w r) + 7 \<le> k"
  shows "\<exists>w'. m_query (fuelled k) d w = Ret () w' \<and> settled w w' d"
proof -
  from assms(4) obtain j where k: "k = Suc j" by (cases k) simp_all
  let ?w1 = "w\<lparr>queries := queries w @ [Some r]\<rparr>"
  have s1: "standalone ?w1 d" "can_serialise ?w1 d"
    using assms(1,2) by simp_all
  have "length (strategy w r) + 6 \<le> j" using assms(4) k by simp
  from add_all_standalone [OF s1 this] obtain w' where
    "m_add_all (fuelled j) d (strategy w r) ?w1 = Ret () w'" "settled ?w1 w' d" by blast
  then show ?thesis using assms(3)
    by (simp add: k query_body_def Let_def settled_def)
qed

text \<open>
  With fuel for the adds of the strategy, \<open>getCurrentIcon()\<close> on a delegate
  with no current icon returns, with the icon that is current afterwards.
\<close>

lemma getCurrentIcon_standalone:
  assumes sd: "standalone w d" and cs: "can_serialise w d"
    and cur: "currentIcon (heap w d) = None" and r: "resource (heap w d) = Some r"
    and k: "length (strategy w r) + 8 \<le> k"
  shows "\<exists>to' w4. m_getCurrentIcon (fuelled k) d w = Ret to' w4
           \<and> to' = currentIcon (heap w4 d) \<and> settled w w4 d"
proof -
  from k obtain j where kj: "k = Suc j" by (cases k) simp_all
  have own: "\<not> delegated (heap w d)" using sd by (simp add: standalone_def)
  from sd obtain a where a: "icons (heap w d) = Some a" by (auto simp add: standalone_def)
  have j4: "4 \<le> j" using k kj by simp
  then obtain n where jn: "j = Suc (Suc (Suc (Suc n)))" using ge4 by blast
  have found: ?thesis if sc: "0 < numIcons (heap w d)" "scan a (alen a) = Some (i, ic)" for i ic
  proof -
    let ?w2 = "emit_log d (DidChangeIcon None (Some ic))
                     (serialised d (assign_current d (Some ic) (Some (int i)) w))"
    have "m_getCurrentIcon (fuelled k) d w = Ret (Some ic) ?w2"
      unfolding kj jn fuelled_Suc_sel
      by (rule getCurrentIcon_found [OF sd cs cur sc(1) a sc(2)])
    moreover have "settled w ?w2 d" "currentIcon (heap ?w2 d) = Some ic"
      using sd cs by (simp_all add: settled_def)
    ultimately show ?thesis by simp
  qed
  have asked: ?thesis if no: "\<not> 0 < numIcons (heap w d) \<or> scan a (alen a) = None"
  proof -
    have "length (strategy w r) + 7 \<le> j" using k kj by simp
    from query_standalone [OF sd cs r this] obtain w' where
      q: "m_query (fuelled j) d w = Ret () w'" "settled w w' d" by blast
    then have "\<not> delegated (heap w' d)" by (simp add: settled_def standalone_def)
    then have g: "m_get_currentIcon (fuelled j) d w' = Ret (currentIcon (heap w' d)) w'"
      unfolding jn fuelled_Suc_sel by (rule get_currentIcon_own)
    have g0: "m_get_currentIcon (fuelled j) d w = Ret None w"
      unfolding jn fuelled_Suc_sel using get_currentIcon_own [OF own] cur by simp
    have "m_getCurrentIcon (fuelled k) d w = Ret (currentIcon (heap w' d)) w'"
      using no by (auto simp add: kj getCurrentIcon_body_def g0 a q(1) g)
    with q(2) show ?thesis by simp
  qed
  show ?thesis
  proof (cases "scan a (alen a)")
    case None
    then show ?thesis using asked by simp
  next
    case (Some ip)
    then show ?thesis using found asked by (cases ip) (cases "0 < numIcons (heap w d)", auto)
  qed
qed

lemma setCurrentIcon_null_found:
  assumes sd: "standalone w d" and cs: "can_serialise w d"
    and cur: "currentIcon (heap w d) = Some from"
    and r: "resource (heap w d) = Some r" "\<not> isDirectory r"
    and num: "0 < numIcons (heap w d)"
    and a: "icons (heap w d) = Some a" "scan a (alen a) = Some (i, ic)"
    and n: "6 \<le> n"
  shows "setCurrentIcon n d None p w =
     Ret () (emit_log d (DidChangeIcon (Some from) (Some ic))
       (serialised d
         (emit_log d (DidChangeIcon None (Some ic))
           (serialised d (assign_current d (Some ic) (Some (int i))
              (assign_current d None p w))))))"
proof -
  from n obtain k where k: "n = Suc (Suc (Suc (Suc (Suc (Suc k)))))" using ge6 by blast
  let ?w3 = "assign_current d None p w"
  let ?w4 = "emit_log d (DidChangeIcon None (Some ic))
           (serialised d (assign_current d (Some ic) (Some (int i)) ?w3))"
  have s3: "standalone ?w3 d" "can_serialise ?w3 d" "currentIcon (heap ?w3 d) = None"
    "0 < numIcons (heap ?w3 d)" "icons (heap ?w3 d) = Some a"
    using sd cs num a(1) by simp_all
  have g: "getCurrentIcon_body (fuelled (Suc (Suc (Suc (Suc k))))) d ?w3 = Ret (Some ic) ?w4"
    by (rule getCurrentIcon_found [OF s3 a(2)])
  have s4: "standalone ?w4 d" "can_serialise ?w4 d" using sd cs by simp_all
  show ?thesis
    unfolding k fuelled_Suc_defs
    by (rule setCurrentIcon_null_file [OF sd cs cur r g s4])
qed

lemma scan_a3: "scan (js_set js_empty 3 (Some icon_a)) (alen (js_set js_empty 3 (Some icon_a)))
                  = Some (3, icon_a)"
  by (simp add: js_set_def js_empty_def js_get_def eval_nat_numeral)

lemma world_a3_file:
  "resource (heap world_a3 0) = Some file_r" "\<not> isDirectory file_r" "events world_a3 = [(0, DidChangeIcon None (Some icon_a))]"
  by (simp_all add: world_a3_def world0_fields file_r_def)

lemma world_dir_fields:
  "standalone world_dir 3" "can_serialise world_dir 3"
  "currentIcon (heap world_dir 3) = Some icon_a" "resource (heap world_dir 3) = Some dir_r"
  "icons (heap world_dir 3) = Some (js_set js_empty 1 (Some icon_a))" "isDirectory dir_r"
  "events world_dir = [(3, DidChangeIcon None (Some icon_a))]"
  by (simp_all add: world_dir_def world0_standalone added_def Let_def world0_fields dir_r_def)

subsection \<open>The invariant of numIcons, through every method\<close>

lemma keeps_simps [simp]:
  "keeps (Ret a w) = all_ok w" "keeps (Throw e w) = all_ok w" "keeps OutOfFuel"
  by (simp_all add: keeps_def)

lemma keeps_bind:
  assumes "keeps m" and "\<And>a w1. all_ok w1 \<Longrightarrow> keeps (f a w1)"
  shows "keeps (bind m f)"
  using assms by (cases m) simp_all

lemma ok_methodsD:
  assumes "ok_methods self" "all_ok w"
  shows "keeps (m_emit self d ev w)" "keeps (m_run_handlers self hs ev w)"
    "keeps (m_emitIconChange self d f t w)" "keeps (m_get_currentIcon self d w)"
    "keeps (m_getCurrentIcon self d w)" "keeps (m_setCurrentIcon self d to p w)"
    "keeps (m_serialise self d w)" "keeps (m_add self d ic pr w)"
    "keeps (m_query self d w)" "keeps (m_add_all self d xs w)"
    "keeps (m_master_inner self d mv w)"
  using assms by (simp_all add: ok_methods_def)

text \<open>The invariant looks at the store only, and there at \<open>icons\<close> and \<open>numIcons\<close>.\<close>

lemma all_ok_heap: "heap w' = heap w \<Longrightarrow> all_ok w' = all_ok w"
  by (simp add: all_ok_def)

lemma all_ok_upd:
  assumes "all_ok w" "numIcons_ok (heap w d) \<Longrightarrow> numIcons_ok (f (heap w d))"
  shows "all_ok (upd d f w)"
  using assms by (simp add: all_ok_def)

lemma numIcons_ok_other [simp]:
  "numIcons_ok (D\<lparr>currentIcon := ci\<rparr>) = numIcons_ok D"
  "numIcons_ok (D\<lparr>currentPriority := cp\<rparr>) = numIcons_ok D"
  "numIcons_ok (D\<lparr>emitter := em\<rparr>) = numIcons_ok D"
  "numIcons_ok (D\<lparr>masterDelegate := md\<rparr>) = numIcons_ok D"
  "numIcons_ok (D\<lparr>disposable := dp\<rparr>) = numIcons_ok D"
  "numIcons_ok (D\<lparr>destroyed := ds\<rparr>) = numIcons_ok D"
  "numIcons_ok (D\<lparr>delegated := dl\<rparr>) = numIcons_ok D"
  "numIcons_ok (D\<lparr>originalIcon := oi\<rparr>) = numIcons_ok D"
  "numIcons_ok (D\<lparr>disposables := dd\<rparr>) = numIcons_ok D"
  "numIcons_ok (D\<lparr>resource := rs\<rparr>) = numIcons_ok D"
  "numIcons_ok (D\<lparr>icons := None\<rparr>)"
  by (simp_all add: numIcons_ok_def split: option.splits)

lemma all_ok_frames [simp]:
  "all_ok (emit_log d ev w) = all_ok w"
  "all_ok (serialised d w) = all_ok w"
  "all_ok (w\<lparr>storage_icons := si\<rparr>) = all_ok w"
  "all_ok (w\<lparr>queries := q\<rparr>) = all_ok w"
  "all_ok (w\<lparr>immediates := im\<rparr>) = all_ok w"
  by (simp_all add: all_ok_def)

lemma all_ok_assign [simp]: "all_ok (assign_current d to p w) = all_ok w"
  by (cases p) (auto simp add: all_ok_def)

text \<open>Storing an icon and clearing a slot keep the count.\<close>

lemma filled_set:
  "filled (js_set a p (Some ic)) = insert p (filled a)"
  "filled (js_set a p None) = filled a - {p}"
  by (auto simp add: filled_def js_set_def)

lemma numIcons_ok_store:
  assumes "numIcons_ok D" "icons D = Some a"
  shows "numIcons_ok (D\<lparr>numIcons := numIcons D + (if js_get a p = None then 1 else 0),
                        icons := Some (js_set a p (Some ic))\<rparr>)"
proof -
  have f: "finite (filled a)" "numIcons D = int (card (filled a))"
    using assms by (simp_all add: numIcons_ok_def)
  have m: "(js_get a p = None) = (p \<notin> filled a)" by (simp add: filled_def js_get_def)
  show ?thesis using f
    by (simp add: numIcons_ok_def filled_set m insert_absorb)
qed

lemma numIcons_ok_clear:
  assumes "numIcons_ok D" "icons D = Some a" "js_get a p = Some ic"
  shows "numIcons_ok (D\<lparr>icons := Some (js_set a p None), numIcons := numIcons D - 1\<rparr>)"
proof -
  have f: "finite (filled a)" "numIcons D = int (card (filled a))"
    using assms by (simp_all add: numIcons_ok_def)
  have m: "p \<in> filled a" using assms(3) by (simp add: filled_def js_get_def)
  then have "0 < card (filled a)" using f(1) by (auto simp add: card_gt_0_iff)
  then show ?thesis using f m
    by (simp add: numIcons_ok_def filled_set of_nat_diff Suc_leI)
qed

lemma all_ok_store:
  assumes "all_ok w" "icons (heap w d) = Some a"
  shows "all_ok (store_icon d a ic p w)"
  unfolding all_ok_def
proof
  fix x
  have "numIcons_ok (heap w d)" using assms(1) by (simp add: all_ok_def)
  from numIcons_ok_store [OF this assms(2), of p ic] assms(1)
  show "numIcons_ok (heap (store_icon d a ic p w) x)" by (simp add: all_ok_def)
qed

lemma numIcons_ok_fresh: "numIcons_ok (fresh r)"
  by (simp add: numIcons_ok_def fresh_def filled_def js_empty_def)

lemma all_ok_dispose: "all_ok w \<Longrightarrow> all_ok (dispose_relay d w)"
  by (auto simp add: dispose_relay_def all_ok_def split: option.splits)

lemma keeps_subscribe: "all_ok w \<Longrightarrow> keeps (subscribe s t w)"
  by (auto simp add: subscribe_def all_ok_def split: option.splits master_val.splits)

lemma all_ok_upd_masterDelegate:
  "all_ok w \<Longrightarrow> all_ok (upd d (\<lambda>D. D\<lparr>masterDelegate := to\<rparr>) w)"
  by (simp add: all_ok_def)

text \<open>Each method keeps the invariant when the methods it calls do.\<close>

lemma emit_body_keeps:
  assumes "ok_methods self" "all_ok w"
  shows "keeps (emit_body self d ev w)"
  using assms by (auto simp add: emit_body_def intro: ok_methodsD split: option.splits)

lemma run_handlers_body_keeps:
  assumes ok: "ok_methods self" and w: "all_ok w"
  shows "keeps (run_handlers_body self hs ev w)"
proof (cases hs)
  case Nil
  then show ?thesis using w by (simp add: run_handlers_body_def)
next
  case (Cons s ss)
  have "keeps (case ev of
                  DidDestroy \<Rightarrow> m_master_inner self s None w
                | DidChangeMaster f t \<Rightarrow> m_master_inner self s (Some MPayload) w
                | DidChangeIcon f t \<Rightarrow> m_emitIconChange self s f t w)"
    using ok w by (cases ev) (simp_all add: ok_methodsD)
  then show ?thesis
    unfolding run_handlers_body_def Cons list.simps
    by (rule keeps_bind) (rule ok_methodsD [OF ok])
qed

lemma emitIconChange_body_keeps:
  assumes "ok_methods self" "all_ok w"
  shows "keeps (emitIconChange_body self d f t w)"
  using assms by (simp add: emitIconChange_body_def ok_methodsD)

lemma get_currentIcon_body_keeps:
  assumes "ok_methods self" "all_ok w"
  shows "keeps (get_currentIcon_body self d w)"
  using assms
  by (simp add: get_currentIcon_body_def ok_methodsD split: option.splits master_val.splits)

lemma serialise_body_keeps:
  assumes ok: "ok_methods self" and w: "all_ok w"
  shows "keeps (serialise_body self d w)"
proof (cases "frozen w")
  case True
  then show ?thesis using w by (simp add: serialise_body_def)
next
  case False
  show ?thesis
  proof (cases "resource (heap w d)")
    case None
    then show ?thesis using w False by (simp add: serialise_body_def)
  next
    case (Some r)
    show ?thesis
      unfolding serialise_body_def using False Some
      by (simp, intro keeps_bind ok_methodsD [OF ok w])
         (simp split: option.splits)
  qed
qed

lemma add_body_keeps:
  assumes ok: "ok_methods self" and w: "all_ok w"
  shows "keeps (add_body self d ic p w)"
proof (cases "icons (heap w d)")
  case None
  then show ?thesis using w by (simp add: add_body_def)
next
  case (Some a)
  have "all_ok (store_icon d a ic p w)" using w Some by (rule all_ok_store)
  then show ?thesis using Some
    by (simp add: add_body_def Let_def ok_methodsD [OF ok])
qed

lemma add_all_body_keeps:
  assumes ok: "ok_methods self" and w: "all_ok w"
  shows "keeps (add_all_body self d xs w)"
proof (cases xs)
  case Nil
  then show ?thesis using w by (simp add: add_all_body_def)
next
  case (Cons y ys)
  obtain ic p where y: "y = (ic, p)" by (cases y)
  show ?thesis
    unfolding add_all_body_def Cons y list.simps prod.simps
    by (rule keeps_bind) (rule ok_methodsD [OF ok w], rule ok_methodsD [OF ok])
qed

lemma query_body_keeps:
  assumes ok: "ok_methods self" and w: "all_ok w"
  shows "keeps (query_body self d w)"
  using w by (simp add: query_body_def Let_def ok_methodsD [OF ok] split: option.splits)

lemma setCurrentIcon_body_keeps:
  assumes ok: "ok_methods self" and w: "all_ok w"
  shows "keeps (setCurrentIcon_body self d to p w)"
  unfolding setCurrentIcon_body_def
proof (rule keeps_bind [OF ok_methodsD(4) [OF ok w]])
  fix fr w1
  assume w1: "all_ok w1"
  let ?w3 = "assign_current d to p w1"
  have w3: "all_ok ?w3" using w1 by simp
  have k: "keeps (if to = None then
                      (case resource (heap ?w3 d) of
                         None \<Rightarrow> Throw TypeError ?w3
                       | Some r \<Rightarrow>
                           if \<not> isDirectory r then m_getCurrentIcon self d ?w3 else Ret to ?w3)
                    else Ret to ?w3)"
    using w3 by (simp add: ok_methodsD [OF ok] split: option.splits)
  have "keeps (bind (if to = None then
                      (case resource (heap ?w3 d) of
                         None \<Rightarrow> Throw TypeError ?w3
                       | Some r \<Rightarrow>
                           if \<not> isDirectory r then m_getCurrentIcon self d ?w3 else Ret to ?w3)
                    else Ret to ?w3)
                (\<lambda>to' w4.
                   bind (m_serialise self d w4) (\<lambda>_ w5. m_emitIconChange self d fr to' w5)))"
    by (rule keeps_bind [OF k]) (rule keeps_bind, rule ok_methodsD [OF ok], assumption,
        rule ok_methodsD [OF ok])
  then show "keeps (if fr \<noteq> to then
         if delegated (heap w1 d) then Throw TypeError w1
         else
           let w3 = assign_current d to p w1
           in bind (if to = None then
                      (case resource (heap w3 d) of
                         None \<Rightarrow> Throw TypeError w3
                       | Some r \<Rightarrow>
                           if \<not> isDirectory r then m_getCurrentIcon self d w3 else Ret to w3)
                    else Ret to w3)
                (\<lambda>to' w4.
                   bind (m_serialise self d w4) (\<lambda>_ w5. m_emitIconChange self d fr to' w5))
       else Ret () w1)"
    using w1 by (simp add: Let_def)
qed

lemma getCurrentIcon_body_keeps:
  assumes ok: "ok_methods self" and w: "all_ok w"
  shows "keeps (getCurrentIcon_body self d w)"
  unfolding getCurrentIcon_body_def
proof (rule keeps_bind [OF ok_methodsD(4) [OF ok w]])
  fix c w1
  assume w1: "all_ok w1"
  have k: "keeps (if numIcons (heap w1 d) > 0 then
                 (case icons (heap w1 d) of
                    None \<Rightarrow> Throw TypeError w1
                  | Some a \<Rightarrow>
                      (case scan a (alen a) of
                         Some (i, ic) \<Rightarrow>
                           bind (m_setCurrentIcon self d (Some ic) (Some (int i)) w1)
                             (\<lambda>_ w2. Ret (Some ic) w2)
                       | None \<Rightarrow> Ret None w1))
               else Ret None w1)"
    using w1
    by (auto split: option.splits intro!: keeps_bind ok_methodsD [OF ok])
  have "keeps (bind (if numIcons (heap w1 d) > 0 then
                 (case icons (heap w1 d) of
                    None \<Rightarrow> Throw TypeError w1
                  | Some a \<Rightarrow>
                      (case scan a (alen a) of
                         Some (i, ic) \<Rightarrow>
                           bind (m_setCurrentIcon self d (Some ic) (Some (int i)) w1)
                             (\<lambda>_ w2. Ret (Some ic) w2)
                       | None \<Rightarrow> Ret None w1))
               else Ret None w1)
           (\<lambda>found w2.
              case found of
                Some ic \<Rightarrow> Ret (Some ic) w2
              | None \<Rightarrow> bind (m_query self d w2) (\<lambda>_ w3. m_get_currentIcon self d w3)))"
    by (rule keeps_bind [OF k])
       (auto split: option.splits intro!: keeps_bind ok_methodsD [OF ok])
  then show "keeps (if c \<noteq> None then m_get_currentIcon self d w1
       else
         bind (if numIcons (heap w1 d) > 0 then
                 (case icons (heap w1 d) of
                    None \<Rightarrow> Throw TypeError w1
                  | Some a \<Rightarrow>
                      (case scan a (alen a) of
                         Some (i, ic) \<Rightarrow>
                           bind (m_setCurrentIcon self d (Some ic) (Some (int i)) w1)
                             (\<lambda>_ w2. Ret (Some ic) w2)
                       | None \<Rightarrow> Ret None w1))
               else Ret None w1)
           (\<lambda>found w2.
              case found of
                Some ic \<Rightarrow> Ret (Some ic) w2
              | None \<Rightarrow> bind (m_query self d w2) (\<lambda>_ w3. m_get_currentIcon self d w3)))"
    using w1 by (simp add: ok_methodsD [OF ok])
qed

lemma master_inner_body_keeps:
  assumes ok: "ok_methods self" and w: "all_ok w"
  shows "keeps (master_inner_body self d to w)"
proof (cases "same_value to (masterDelegate (heap w d))")
  case True
  then show ?thesis using w by (simp add: master_inner_body_def)
next
  case False
  let ?w2 = "dispose_relay d (upd d (\<lambda>D. D\<lparr>masterDelegate := to\<rparr>) w)"
  have w2: "all_ok ?w2" using w by (intro all_ok_dispose all_ok_upd_masterDelegate)
  have k: "keeps (case to of None \<Rightarrow> Ret () ?w2 | Some t \<Rightarrow> subscribe d t ?w2)"
    using w2 by (cases to) (simp_all add: keeps_subscribe)
  have "keeps (bind (case to of None \<Rightarrow> Ret () ?w2 | Some t \<Rightarrow> subscribe d t ?w2) (\<lambda>_ w3.
           bind (if emitter (heap w3 d) \<noteq> None
                 then m_emit self d (DidChangeMaster (masterDelegate (heap w d)) to) w3
                 else Ret () w3) (\<lambda>_ w4.
           bind (m_get_currentIcon self d w4) (\<lambda>t w5.
             m_emitIconChange self d (originalIcon (heap w5 d)) t w5))))"
    by (rule keeps_bind [OF k])
       (auto intro!: keeps_bind ok_methodsD [OF ok])
  then show ?thesis using False by (simp add: master_inner_body_def Let_def)
qed

lemma ok_methods_unfold:
  assumes "ok_methods self"
  shows "ok_methods (unfold_methods self)"
  unfolding ok_methods_def unfold_methods_def
  using assms
  by (simp add: emit_body_keeps run_handlers_body_keeps emitIconChange_body_keeps
      get_currentIcon_body_keeps getCurrentIcon_body_keeps setCurrentIcon_body_keeps
      serialise_body_keeps add_body_keeps query_body_keeps add_all_body_keeps
      master_inner_body_keeps)

lemma ok_methods_fuelled: "ok_methods (fuelled n)"
proof (induction n)
  case 0
  show ?case by (simp add: fuelled.simps ok_methods_def no_fuel_def)
next
  case (Suc n)
  then show ?case by (simp add: fuelled.simps ok_methods_unfold)
qed

lemmas fuelled_keeps = ok_methodsD [OF ok_methods_fuelled]

lemma remove_keeps:
  assumes w: "all_ok w"
  shows "keeps (remove n d ic p w)"
proof (cases "p \<noteq> 0 \<and> (\<exists>a. icons (heap w d) = Some a \<and> js_get a p = Some ic)")
  case False
  then show ?thesis using w by (auto simp add: remove_def split: option.splits)
next
  case True
  then obtain a where a: "icons (heap w d) = Some a" "js_get a p = Some ic" "p \<noteq> 0" by blast
  let ?w2 = "upd d (\<lambda>D. D\<lparr>numIcons := numIcons D - 1\<rparr>)
               (upd d (\<lambda>D. D\<lparr>icons := Some (js_set a p None)\<rparr>) w)"
  have "numIcons_ok (heap w d)" using w by (simp add: all_ok_def)
  from numIcons_ok_clear [OF this a(1,2)] w have "all_ok ?w2" by (simp add: all_ok_def)
  then show ?thesis using a
    by (simp add: remove_def Let_def setCurrentIcon_def fuelled_keeps)
qed

lemma destroy_keeps:
  assumes w: "all_ok w"
  shows "keeps (destroy n d w)"
proof (cases "destroyed (heap w d)")
  case True
  then show ?thesis using w by (simp add: destroy_def)
next
  case False
  have "all_ok (upd d (\<lambda>D. D\<lparr>destroyed := True\<rparr>) w)" using w by (simp add: all_ok_def)
  then have k: "keeps (emit n d DidDestroy (upd d (\<lambda>D. D\<lparr>destroyed := True\<rparr>) w))"
    by (simp add: emit_def fuelled_keeps)
  show ?thesis
    unfolding destroy_def using False
    by (simp, intro keeps_bind [OF k]) (auto simp add: all_ok_def Let_def split: option.splits)
qed

lemma deserialise_keeps:
  assumes w: "all_ok w"
  shows "keeps (deserialise n d w)"
  unfolding deserialise_def using w
  by (auto simp add: add_def fuelled_keeps split: option.splits intro!: keeps_bind)

lemma construct_keeps:
  assumes w: "all_ok w"
  shows "keeps (construct n r w)"
proof -
  have "all_ok (w\<lparr>heap := (heap w)(next_ref w := fresh r), next_ref := Suc (next_ref w)\<rparr>)"
    using w by (simp add: all_ok_def numIcons_ok_fresh)
  then show ?thesis
    unfolding construct_def Let_def
    by (intro keeps_bind deserialise_keeps) simp_all
qed

lemma set_master_keeps:
  assumes w: "all_ok w"
  shows "keeps (set_master n d input w)"
proof -
  have "all_ok (define_accessors d w)" using w by (simp add: define_accessors_def all_ok_def)
  then show ?thesis using w
    by (simp add: set_master_def master_inner_def fuelled_keeps split: option.splits)
qed

text \<open>
  Where every icon of the array sits at an index of the array, the slots that
  are not empty are counted by going through the elements.
\<close>

lemma card_filled_elements:
  assumes "\<forall>i\<in>filled a. 0 \<le> i \<and> i < int (alen a)"
  shows "card (filled a) = length (filter (\<lambda>n. slot a (int n) \<noteq> None) [0..<alen a])"
proof -
  let ?S = "{n. n < alen a \<and> slot a (int n) \<noteq> None}"
  have "filled a = int ` ?S"
  proof (rule set_eqI)
    fix i
    show "i \<in> filled a \<longleftrightarrow> i \<in> int ` ?S"
    proof
      assume i: "i \<in> filled a"
      with assms have "0 \<le> i" "i < int (alen a)" by auto
      then have "nat i \<in> ?S" using i by (simp add: filled_def)
      moreover have "i = int (nat i)" using \<open>0 \<le> i\<close> by simp
      ultimately show "i \<in> int ` ?S" by (rule rev_image_eqI)
    next
      assume "i \<in> int ` ?S"
      then show "i \<in> filled a" by (auto simp add: filled_def)
    qed
  qed
  then have "card (filled a) = card ?S" by (simp add: card_image)
  also have "?S = set (filter (\<lambda>n. slot a (int n) \<noteq> None) [0..<alen a])" by auto
  also have "card \<dots> = length (filter (\<lambda>n. slot a (int n) \<noteq> None) [0..<alen a])"
    by (rule distinct_card) simp
  finally show ?thesis .
qed

lemma all_ok_world0: "all_ok world0"
  by (simp add: all_ok_def world0_def numIcons_ok_fresh)

subsection \<open>A chain of masters\<close>


lemma world_ab_3: "heap world_ab 3 = fresh dir_r"
  by (simp add: world_ab_def world_a3_def world0_def)





subsection \<open>destroy on a master: the handlers of its slaves\<close>









subsection \<open>A master that has no icon\<close>

text \<open>
  \<open>getCurrentIcon()\<close> on a delegate that owns its icon, has none, holds no icons
  and gets none from the strategy: one query, and \<open>null\<close>.
\<close>

lemma getCurrentIcon_unresolved:
  assumes "\<not> delegated (heap w m)" "currentIcon (heap w m) = None"
    and "numIcons (heap w m) \<le> 0" "resource (heap w m) = Some r" "strategy w r = []"
  shows "getCurrentIcon_body (fuelled (Suc (Suc n))) m w =
           Ret None (w\<lparr>queries := queries w @ [Some r]\<rparr>)"
  using assms
  by (simp add: getCurrentIcon_body_def get_currentIcon_body_def query_body_def add_all_body_def
      Let_def)

lemma set_master_unresolved:
  assumes dm: "d \<noteq> m" and sd: "standalone w d"
    and m: "\<not> delegated (heap w m)" "emitter (heap w m) = Some em"
      "currentIcon (heap w m) = None" "numIcons (heap w m) \<le> 0"
      "resource (heap w m) = Some r" "strategy w r = []"
  shows "set_master (Suc (Suc (Suc (Suc (Suc n))))) d (Some m) w =
     Ret () (emit_log d (DidChangeIcon (currentIcon (heap w d)) None)
              ((emit_log d (DidChangeMaster None (Some (MDelegate m)))
                 (attach d m (define_accessors d w)))\<lparr>queries := queries w @ [Some r]\<rparr>))"
proof -
  let ?wA = "define_accessors d w"
  let ?w3 = "attach d m ?wA"
  let ?w4 = "emit_log d (DidChangeMaster None (Some (MDelegate m))) ?w3"
  let ?w5 = "?w4\<lparr>queries := queries w @ [Some r]\<rparr>"
  have d: "\<not> delegated (heap w d)" "emitter (heap w d) = Some no_handlers"
    using sd by (simp_all add: standalone_def)
  have mA: "emitter (heap ?wA m) = Some em" "disposable (heap ?wA d) = None"
    using dm m by simp_all
  note att = attach_fields [OF dm mA]
  have sub: "subscribe d (MDelegate m)
           (dispose_relay d (upd d (\<lambda>D. D\<lparr>masterDelegate := Some (MDelegate m)\<rparr>) ?wA))
         = Ret () ?w3" by (rule subscribe_attach [OF dm mA])
  have e3: "emitter (heap ?w3 d) = Some no_handlers" using d by (simp add: att)
  have em3: "emit_body (fuelled (Suc (Suc (Suc n)))) d (DidChangeMaster None (Some (MDelegate m))) ?w3
               = Ret () ?w4" using e3 by (rule emit_no_handlers)
  have m4: "\<not> delegated (heap ?w4 m)" "currentIcon (heap ?w4 m) = None"
    "numIcons (heap ?w4 m) \<le> 0" "resource (heap ?w4 m) = Some r" "strategy ?w4 r = []"
    using dm m by (simp_all add: att)
  have q4: "queries ?w4 = queries w" by (simp add: att)
  have g4: "get_currentIcon_body (fuelled (Suc (Suc (Suc n)))) d ?w4 = Ret None ?w5"
    using getCurrentIcon_unresolved [OF m4, of n]
    by (simp add: get_currentIcon_body_def att q4)
  have e5: "emitter (heap ?w5 d) = Some no_handlers" using e3 by simp
  have o5: "originalIcon (heap ?w3 d) = currentIcon (heap w d)" by (simp add: att)
  have ei: "emitIconChange_body (fuelled (Suc (Suc (Suc n)))) d (currentIcon (heap w d)) None ?w5
              = Ret () (emit_log d (DidChangeIcon (currentIcon (heap w d)) None) ?w5)"
    using e5 by (rule emitIconChange_standalone)
  have gm: "get_master m w \<noteq> Some (MDelegate d)" using m by (simp add: get_master_def)
  have mi: "master_inner_body (fuelled (Suc (Suc (Suc (Suc n))))) d (Some (MDelegate m)) ?wA
            = Ret () (emit_log d (DidChangeIcon (currentIcon (heap w d)) None) ?w5)"
    unfolding master_inner_body_def
    by (simp add: Let_def sub e3 em3 g4 o5 ei)
  show ?thesis
    using d gm mi by (simp add: set_master_def)
qed

text \<open>
  \<open>getCurrentIcon()\<close> on a delegate whose master is such a delegate and which
  holds an icon of its own: the master yields \<open>null\<close>, the scan finds the own
  icon, and \<open>setCurrentIcon\<close> throws at \<open>this.currentIcon = to\<close>.
\<close>

lemma getCurrentIcon_delegated_throws:
  assumes d: "delegated (heap w d)" "masterDelegate (heap w d) = Some (MDelegate m)"
      "0 < numIcons (heap w d)" "icons (heap w d) = Some a" "scan a (alen a) = Some (i, ic)"
    and m: "\<not> delegated (heap w m)" "currentIcon (heap w m) = None"
      "numIcons (heap w m) \<le> 0" "resource (heap w m) = Some r" "strategy w r = []"
  shows "getCurrentIcon_body (fuelled (Suc (Suc (Suc (Suc (Suc n)))))) d w =
           Throw TypeError (w\<lparr>queries := queries w @ [Some r, Some r]\<rparr>)"
proof -
  let ?w1 = "w\<lparr>queries := queries w @ [Some r]\<rparr>"
  have m1: "\<not> delegated (heap ?w1 m)" "currentIcon (heap ?w1 m) = None"
    "numIcons (heap ?w1 m) \<le> 0" "resource (heap ?w1 m) = Some r" "strategy ?w1 r = []"
    using m by simp_all
  have g0: "get_currentIcon_body (fuelled (Suc (Suc (Suc (Suc n))))) d w = Ret None ?w1"
    using getCurrentIcon_unresolved [OF m, of "Suc n"] d
    by (simp add: get_currentIcon_body_def)
  have g1: "get_currentIcon_body (fuelled (Suc (Suc (Suc n)))) d ?w1
              = Ret None (w\<lparr>queries := queries w @ [Some r, Some r]\<rparr>)"
    using getCurrentIcon_unresolved [OF m1, of n] d
    by (simp add: get_currentIcon_body_def)
  have s: "setCurrentIcon_body (fuelled (Suc (Suc (Suc (Suc n))))) d (Some ic) (Some (int i)) ?w1
              = Throw TypeError (w\<lparr>queries := queries w @ [Some r, Some r]\<rparr>)"
    using d by (simp add: setCurrentIcon_body_def g1)
  show ?thesis
    using d by (simp add: getCurrentIcon_body_def g0 s)
qed

lemma world_unresolved_fields:
  "set_master 6 2 (Some 3) world_ab = Ret () world_unresolved"
  "heap world_unresolved 2 = (heap world_ab 2)\<lparr>originalIcon := Some icon_b, delegated := True,
               masterDelegate := Some (MDelegate 3), disposable := Some 3\<rparr>"
  "heap world_unresolved 3 = (fresh dir_r)\<lparr>emitter := Some (only_relay 2)\<rparr>"
  "strategy world_unresolved r = []"
proof -
  have six: "6 = Suc (Suc (Suc (Suc (Suc (Suc 0)))))" by simp
  have dm: "(2::nat) \<noteq> 3" by simp
  have m: "\<not> delegated (heap world_ab 3)" "emitter (heap world_ab 3) = Some no_handlers"
      "currentIcon (heap world_ab 3) = None" "numIcons (heap world_ab 3) \<le> 0"
      "resource (heap world_ab 3) = Some dir_r" "strategy world_ab dir_r = []"
    by (simp_all add: world_ab_3 fresh_def no_handlers_def)
       (simp add: world_ab_def world_a3_other)
  have q: "queries world_ab = []" by (simp add: world_ab_def world_a3_def world0_def)
  show "set_master 6 2 (Some 3) world_ab = Ret () world_unresolved"
    unfolding six world_unresolved_def
    using set_master_unresolved [OF dm world_ab_fields(1) m]
    by (simp add: world_ab_fields q)
  have mA: "emitter (heap (define_accessors 2 world_ab) 3) = Some no_handlers"
    "disposable (heap (define_accessors 2 world_ab) 2) = None"
    using m by simp_all
  note att = attach_fields [OF dm mA]
  show "heap world_unresolved 2 = (heap world_ab 2)\<lparr>originalIcon := Some icon_b, delegated := True,
               masterDelegate := Some (MDelegate 3), disposable := Some 3\<rparr>"
    "heap world_unresolved 3 = (fresh dir_r)\<lparr>emitter := Some (only_relay 2)\<rparr>"
    by (simp_all add: world_unresolved_def att world_ab_fields world_ab_3 only_relay_def
        no_handlers_def)
  show "strategy world_unresolved r = []"
    by (simp add: world_unresolved_def att) (simp add: world_ab_def world_a3_other)
qed

subsection \<open>add and the retry of deserialise on a delegate that has a master\<close>

text \<open>
  \<open>add\<close> on a delegate whose master has no icon: the icon is stored and counted,
  the getter of \<open>currentIcon\<close> asks the master, and \<open>setCurrentIcon\<close> throws at
  \<open>this.currentIcon = to\<close>.
\<close>

lemma add_delegated_throws:
  assumes d: "delegated (heap w d)" "masterDelegate (heap w d) = Some (MDelegate m)"
      "icons (heap w d) = Some a" "currentPriority (heap w d) \<le> p" "d \<noteq> m"
    and m: "\<not> delegated (heap w m)" "currentIcon (heap w m) = None"
      "numIcons (heap w m) \<le> 0" "resource (heap w m) = Some r" "strategy w r = []"
  shows "add_body (fuelled (Suc (Suc (Suc (Suc (Suc n)))))) d ic p w =
           Throw TypeError ((store_icon d a ic p w)\<lparr>queries := queries w @ [Some r]\<rparr>)"
proof -
  let ?w2 = "store_icon d a ic p w"
  have m2: "\<not> delegated (heap ?w2 m)" "currentIcon (heap ?w2 m) = None"
    "numIcons (heap ?w2 m) \<le> 0" "resource (heap ?w2 m) = Some r" "strategy ?w2 r = []"
    using m d(5) by simp_all
  have g: "get_currentIcon_body (fuelled (Suc (Suc (Suc n)))) d ?w2
             = Ret None (?w2\<lparr>queries := queries w @ [Some r]\<rparr>)"
    using getCurrentIcon_unresolved [OF m2, of n] d
    by (simp add: get_currentIcon_body_def)
  have s: "setCurrentIcon_body (fuelled (Suc (Suc (Suc (Suc n))))) d (Some ic) (Some p) ?w2
             = Throw TypeError (?w2\<lparr>queries := queries w @ [Some r]\<rparr>)"
    using d by (simp add: setCurrentIcon_body_def g)
  show ?thesis
    using d unfolding add_body_def
    by (simp only: option.simps Let_def fuelled_Suc_sel s) simp
qed

lemma world_link_cached_fields:
  "heap world_link_cached = heap world0" "strategy world_link_cached r = []"
  "queries world_link_cached = []" "immediates world_link_cached = []"
  "fileIcons world_link_cached = None"
  "storage_icons world_link_cached ''/a/link'' = Some
       \<lparr>c_priority = 3, c_iconIndex = 0, c_iconClass = ''icon-a'', c_colourClasses = []\<rparr>"
  "path link_r = ''/a/link''" "\<not> isDirectory link_r"
  by (simp_all add: world_link_cached_def world0_def link_r_def)

lemma deserialise_world_link_cached: "deserialise 5 2 world_link_cached = Ret () world_link_retry"
  by (simp add: deserialise_def world_link_retry_def world_link_cached_fields world0_fields
      iconList_of_def)

lemma world_link_delegated_fields:
  "set_master 6 2 (Some 0) world_link_retry = Ret () world_link_delegated"
  "heap world_link_delegated 2 = (fresh link_r)\<lparr>delegated := True,
               masterDelegate := Some (MDelegate 0), disposable := Some 0\<rparr>"
  "heap world_link_delegated 0 = (fresh file_r)\<lparr>emitter := Some (only_relay 2)\<rparr>"
  "strategy world_link_delegated r = []" "queries world_link_delegated = [Some file_r]"
  "immediates world_link_delegated = [RetryDeserialise 2]"
  "storage_icons world_link_delegated = storage_icons world_link_cached"
  "directoryIcons world_link_delegated = directoryIcons world_link_cached"
proof -
  have six: "6 = Suc (Suc (Suc (Suc (Suc (Suc 0)))))" by simp
  have dm: "(2::nat) \<noteq> 0" by simp
  have h: "heap world_link_retry = heap world0" "strategy world_link_retry r = []"
    "queries world_link_retry = []" for r
    by (simp_all add: world_link_retry_def world_link_cached_fields)
  have h0: "heap world0 0 = fresh file_r" "heap world0 2 = fresh link_r"
    by (simp_all add: world0_def)
  have sd: "standalone world_link_retry 2"
    using world0_standalone(1) [of 2] by (simp add: standalone_def h)
  have m: "\<not> delegated (heap world_link_retry 0)"
      "emitter (heap world_link_retry 0) = Some no_handlers"
      "currentIcon (heap world_link_retry 0) = None" "numIcons (heap world_link_retry 0) \<le> 0"
      "resource (heap world_link_retry 0) = Some file_r" "strategy world_link_retry file_r = []"
    by (simp_all add: h h0 fresh_def no_handlers_def)
  show "set_master 6 2 (Some 0) world_link_retry = Ret () world_link_delegated"
    unfolding six world_link_delegated_def
    using set_master_unresolved [OF dm sd m]
    by (simp add: h h0 fresh_def)
  have mA: "emitter (heap (define_accessors 2 world_link_retry) 0) = Some no_handlers"
    "disposable (heap (define_accessors 2 world_link_retry) 2) = None"
    using m by simp_all
  note att = attach_fields [OF dm mA]
  show "heap world_link_delegated 2 = (fresh link_r)\<lparr>delegated := True,
               masterDelegate := Some (MDelegate 0), disposable := Some 0\<rparr>"
    "heap world_link_delegated 0 = (fresh file_r)\<lparr>emitter := Some (only_relay 2)\<rparr>"
    by (simp_all add: world_link_delegated_def att h h0 only_relay_def no_handlers_def fresh_def)
  show "strategy world_link_delegated r = []" "queries world_link_delegated = [Some file_r]"
    "immediates world_link_delegated = [RetryDeserialise 2]"
    "storage_icons world_link_delegated = storage_icons world_link_cached"
    "directoryIcons world_link_delegated = directoryIcons world_link_cached"
    by (simp_all add: world_link_delegated_def att h)
       (simp_all add: world_link_retry_def)
qed

lemma world_link_loaded_fields:
  "heap world_link_loaded = heap world_link_delegated"
  "strategy world_link_loaded r = []" "queries world_link_loaded = [Some file_r]"
  "immediates world_link_loaded = [RetryDeserialise 2]"
  "storage_icons world_link_loaded ''/a/link'' = Some
       \<lparr>c_priority = 3, c_iconIndex = 0, c_iconClass = ''icon-a'', c_colourClasses = []\<rparr>"
  "iconList_of world_link_loaded link_r = Some [icon_a, icon_b]"
  by (simp_all add: world_link_loaded_def world_link_delegated_fields world_link_cached_fields
      iconList_of_def)

lemma add_world_link_loaded:
  "add 6 2 icon_a 3 world_link_loaded = Throw TypeError world_link_thrown"
proof -
  have six: "6 = Suc (Suc (Suc (Suc (Suc (Suc 0)))))" by simp
  note l = world_link_loaded_fields
  note g = world_link_delegated_fields
  have d: "delegated (heap world_link_loaded 2)"
      "masterDelegate (heap world_link_loaded 2) = Some (MDelegate 0)"
      "icons (heap world_link_loaded 2) = Some js_empty"
      "currentPriority (heap world_link_loaded 2) \<le> 3" "(2::nat) \<noteq> 0"
    by (simp_all add: l g fresh_def)
  have m: "\<not> delegated (heap world_link_loaded 0)" "currentIcon (heap world_link_loaded 0) = None"
      "numIcons (heap world_link_loaded 0) \<le> 0" "resource (heap world_link_loaded 0) = Some file_r"
      "strategy world_link_loaded file_r = []"
    by (simp_all add: l g fresh_def)
  show ?thesis
    unfolding six fuelled_Suc_defs add_delegated_throws [OF d m]
    by (simp add: world_link_thrown_def l)
qed

lemma run_retry_world_link_loaded:
  "run_task 6 (RetryDeserialise 2) world_link_loaded = Throw TypeError world_link_thrown"
proof -
  note l = world_link_loaded_fields
  have r: "resource (heap world_link_loaded 2) = Some link_r"
    by (simp add: l world_link_delegated_fields fresh_def)
  show ?thesis
    by (simp add: run_task_def deserialise_def r world_link_cached_fields(7) l(2-6)
        table_get_example add_world_link_loaded)
qed

lemma world_link_thrown_fields:
  "numIcons (heap world_link_thrown 2) = 1"
  "icons (heap world_link_thrown 2) = Some (js_set js_empty 3 (Some icon_a))"
  "immediates world_link_thrown = [RetryDeserialise 2]"
  by (simp_all add: world_link_thrown_def world_link_loaded_fields world_link_delegated_fields
      fresh_def js_get_def js_empty_def)

section \<open>C3: remove at priority 0\<close>

text \<open>
  C3. The claim: priority 0 is a removable slot, \<open>remove(icon, 0)\<close> clears slot
  0 and decrements \<open>numIcons\<close> when the slot holds \<open>icon\<close>. The guard
  \<open>priority && ...\<close> of the source takes 0 for false: \<open>remove\<close> at priority 0
  returns at once and leaves the world as it is, whatever the slot holds.
\<close>

theorem C3_remove_zero_changes_nothing:
  "remove n d ic 0 w = Ret () w"
  by (simp add: remove_def)

section \<open>C6: setCurrentIcon twice with the same icon\<close>

text \<open>
  C6, as stated: for every delegate and every icon \<open>x\<close>, two calls of
  \<open>setCurrentIcon(x)\<close> in a row emit exactly one icon-change event in total.
  On a delegate whose current icon is \<open>x\<close> already, the first call is a no-op
  as well, and no event is emitted at all: in \<open>world_a3\<close> the call leaves the
  world, with its events, as it is.
\<close>

theorem C6_counterexample:
  "currentIcon (heap world_a3 0) = Some icon_a
   \<and> setCurrentIcon 4 0 (Some icon_a) None world_a3 = Ret () world_a3"
  by (simp add: setCurrentIcon_again world_a3_def store_icon_def world0_def fresh_def)

text \<open>
  C6, amended. On a live delegate that owns its icon, with no relay subscribed
  and a cache that can be written, \<open>setCurrentIcon(x)\<close> returns, and a second
  call with the same icon \<open>x\<close> returns the world unchanged (no state changes,
  no event). The two calls together emit one icon-change event \<open>{from, x}\<close>
  when \<open>x\<close> was not the current icon before, and none when it was.
\<close>

theorem C6_second_call_is_noop:
  assumes "standalone w d" and "can_serialise w d" and "4 \<le> n" and "2 \<le> m"
  shows "\<exists>w1. setCurrentIcon n d (Some x) p w = Ret () w1
           \<and> setCurrentIcon m d (Some x) q w1 = Ret () w1
           \<and> events w1 = events w @
                (if currentIcon (heap w d) = Some x then []
                 else [(d, DidChangeIcon (currentIcon (heap w d)) (Some x))])"
proof -
  from assms(3) obtain k where n: "n = Suc (Suc (Suc (Suc k)))" using ge4 by blast
  have own: "\<not> delegated (heap w d)" using assms(1) by (simp add: standalone_def)
  show ?thesis
  proof (cases "currentIcon (heap w d) = Some x")
    case True
    then show ?thesis using own assms(4) n
      by (simp add: setCurrentIcon_again setCurrentIcon_body_def get_currentIcon_own)
  next
    case False
    let ?w1 = "emit_log d (DidChangeIcon (currentIcon (heap w d)) (Some x))
                 (serialised d (assign_current d (Some x) p w))"
    have 1: "setCurrentIcon n d (Some x) p w = Ret () ?w1"
      using False assms(1,2) n by (simp add: setCurrentIcon_some)
    have 2: "setCurrentIcon m d (Some x) q ?w1 = Ret () ?w1"
      using own assms(4) by (intro setCurrentIcon_again) simp_all
    show ?thesis using 1 2 False by simp
  qed
qed

theorem C6_witness:
  "standalone world0 0 \<and> can_serialise world0 0 \<and>
   (\<exists>w1. setCurrentIcon 4 0 (Some icon_a) None world0 = Ret () w1
      \<and> setCurrentIcon 4 0 (Some icon_a) None w1 = Ret () w1
      \<and> events w1 = [(0, DidChangeIcon None (Some icon_a))])"
proof -
  have h: "standalone world0 0" "can_serialise world0 0" by (rule world0_standalone)+
  have c: "currentIcon (heap world0 0) = None" "events world0 = []"
    by (simp_all add: world0_def fresh_def)
  from C6_second_call_is_noop [OF h, of 4 4 icon_a None None] c h show ?thesis by simp
qed

section \<open>C1: add\<close>

text \<open>
  C1, as stated: \<open>add(icon, priority)\<close> promotes \<open>icon\<close> to \<open>currentIcon\<close> with
  \<open>currentPriority = priority\<close> if and only if \<open>priority >= currentPriority\<close>.
  In \<open>world_a3\<close> the icon \<open>icon_a\<close> is current at priority 3; \<open>add(icon_a, 5)\<close>
  has \<open>5 >= 3\<close>, and \<open>setCurrentIcon\<close> finds the icon current already and
  returns at once: \<open>currentPriority\<close> stays 3.
\<close>

theorem C1_counterexample:
  "currentPriority (heap world_a3 0) \<le> 5
   \<and> returned (add 5 0 icon_a 5 world_a3)
   \<and> currentIcon (heap (the (world_of (add 5 0 icon_a 5 world_a3))) 0) = Some icon_a
   \<and> currentPriority (heap (the (world_of (add 5 0 icon_a 5 world_a3))) 0) = 3"
proof -
  have "add (Suc (Suc (Suc (Suc (Suc 0))))) 0 icon_a 5 world_a3
          = Ret () (store_icon 0 (js_set js_empty 3 (Some icon_a)) icon_a 5 world_a3)"
    unfolding fuelled_Suc_defs add_standalone [OF world_a3_fields(1-3)]
    by (simp add: world_a3_fields Let_def)
  then have "add 5 0 icon_a 5 world_a3
          = Ret () (store_icon 0 (js_set js_empty 3 (Some icon_a)) icon_a 5 world_a3)"
    by (simp add: eval_nat_numeral)
  then show ?thesis by (simp add: returned_def world_of_def world_a3_fields)
qed

text \<open>
  C1, amended. On a live delegate that owns its icon (no relay subscribed,
  cache writable), with enough fuel \<open>add(icon, priority)\<close> returns; it stores
  \<open>icon\<close> at slot \<open>priority\<close>, and increments \<open>numIcons\<close> exactly when that slot
  was empty. If \<open>priority >= currentPriority\<close> the icon is the current icon
  afterwards, and \<open>currentPriority\<close> becomes \<open>priority\<close> unless the icon was the
  current icon already (then \<open>currentPriority\<close> keeps its value); otherwise
  \<open>currentIcon\<close> and \<open>currentPriority\<close> keep their values. On a fresh delegate
  (no current icon, \<open>currentPriority = -1\<close>) a single \<open>add\<close> at a priority from
  -1 upwards promotes its icon at that priority. And where \<open>iconA\<close> is not the
  current icon and \<open>currentPriority <= 3\<close>, after \<open>add(iconA, 3)\<close> then
  \<open>add(iconB, 1)\<close> the call \<open>getCurrentIcon()\<close> returns \<open>iconA\<close>.
\<close>

theorem C1_add:
  assumes "standalone w d" and "can_serialise w d" and "icons (heap w d) = Some a" and "5 \<le> n"
  shows "(\<exists>w'. add n d ic p w = Ret () w'
            \<and> icons (heap w' d) = Some (js_set a p (Some ic))
            \<and> js_get (js_set a p (Some ic)) p = Some ic
            \<and> numIcons (heap w' d) = numIcons (heap w d) + (if js_get a p = None then 1 else 0)
            \<and> (if currentPriority (heap w d) \<le> p
                then currentIcon (heap w' d) = Some ic
                     \<and> currentPriority (heap w' d) =
                         (if currentIcon (heap w d) = Some ic then currentPriority (heap w d) else p)
                else currentIcon (heap w' d) = currentIcon (heap w d)
                     \<and> currentPriority (heap w' d) = currentPriority (heap w d))
            \<and> (currentIcon (heap w d) = None \<and> currentPriority (heap w d) = - 1 \<and> - 1 \<le> p
                 \<longrightarrow> currentIcon (heap w' d) = Some ic \<and> currentPriority (heap w' d) = p))
     \<and> (currentIcon (heap w d) \<noteq> Some iconA \<and> currentPriority (heap w d) \<le> 3
          \<longrightarrow> (\<exists>w1 w2. add n d iconA 3 w = Ret () w1 \<and> add n d iconB 1 w1 = Ret () w2
                 \<and> getCurrentIcon n d w2 = Ret (Some iconA) w2))"
proof -
  from assms(4) obtain k where n: "n = Suc (Suc (Suc (Suc (Suc k))))" using ge5 by blast
  have own: "\<not> delegated (heap w d)" using assms(1) by (simp add: standalone_def)
  have A: "add n d ic p w = Ret () (let w2 = store_icon d a ic p w in
             if currentPriority (heap w d) \<le> p \<and> currentIcon (heap w d) \<noteq> Some ic
             then emit_log d (DidChangeIcon (currentIcon (heap w d)) (Some ic))
                    (serialised d (assign_current d (Some ic) (Some p) w2))
             else w2)" for ic p
    unfolding n fuelled_Suc_defs by (rule add_standalone [OF assms(1-3)])
  have part1: "\<exists>w'. add n d ic p w = Ret () w'
            \<and> icons (heap w' d) = Some (js_set a p (Some ic))
            \<and> js_get (js_set a p (Some ic)) p = Some ic
            \<and> numIcons (heap w' d) = numIcons (heap w d) + (if js_get a p = None then 1 else 0)
            \<and> (if currentPriority (heap w d) \<le> p
                then currentIcon (heap w' d) = Some ic
                     \<and> currentPriority (heap w' d) =
                         (if currentIcon (heap w d) = Some ic then currentPriority (heap w d) else p)
                else currentIcon (heap w' d) = currentIcon (heap w d)
                     \<and> currentPriority (heap w' d) = currentPriority (heap w d))
            \<and> (currentIcon (heap w d) = None \<and> currentPriority (heap w d) = - 1 \<and> - 1 \<le> p
                 \<longrightarrow> currentIcon (heap w' d) = Some ic \<and> currentPriority (heap w' d) = p)"
    unfolding A by (simp add: Let_def js_get_def js_set_def)
  have part2: "\<exists>w1 w2. add n d iconA 3 w = Ret () w1 \<and> add n d iconB 1 w1 = Ret () w2
                 \<and> getCurrentIcon n d w2 = Ret (Some iconA) w2"
    if h: "currentIcon (heap w d) \<noteq> Some iconA" "currentPriority (heap w d) \<le> 3"
  proof -
    let ?w1 = "emit_log d (DidChangeIcon (currentIcon (heap w d)) (Some iconA))
                    (serialised d (assign_current d (Some iconA) (Some 3) (store_icon d a iconA 3 w)))"
    have 1: "add n d iconA 3 w = Ret () ?w1" unfolding A using h by (simp add: Let_def)
    have s1: "standalone ?w1 d" "can_serialise ?w1 d" using assms(1,2) by simp_all
    have i1: "icons (heap ?w1 d) = Some (js_set a 3 (Some iconA))" by simp
    have c1: "currentIcon (heap ?w1 d) = Some iconA" "currentPriority (heap ?w1 d) = 3" by simp_all
    let ?w2 = "store_icon d (js_set a 3 (Some iconA)) iconB 1 ?w1"
    have 2: "add n d iconB 1 ?w1 = Ret () ?w2"
      unfolding n fuelled_Suc_defs add_standalone [OF s1 i1] c1 by (simp add: Let_def)
    have "\<not> delegated (heap ?w2 d)" "currentIcon (heap ?w2 d) = Some iconA" using own by simp_all
    then have 3: "getCurrentIcon n d ?w2 = Ret (Some iconA) ?w2"
      unfolding n fuelled_Suc_defs by (rule getCurrentIcon_own_some)
    from 1 2 3 show ?thesis by blast
  qed
  from part1 part2 show ?thesis by blast
qed

theorem C1_witness:
  "standalone world0 0 \<and> can_serialise world0 0 \<and> icons (heap world0 0) = Some js_empty
   \<and> (\<exists>w'. add 5 0 icon_a 3 world0 = Ret () w'
         \<and> icons (heap w' 0) = Some (js_set js_empty 3 (Some icon_a))
         \<and> numIcons (heap w' 0) = 1
         \<and> currentIcon (heap w' 0) = Some icon_a \<and> currentPriority (heap w' 0) = 3)
   \<and> (\<exists>w1 w2. add 5 0 icon_a 3 world0 = Ret () w1 \<and> add 5 0 icon_b 1 w1 = Ret () w2
         \<and> getCurrentIcon 5 0 w2 = Ret (Some icon_a) w2)"
proof -
  have h: "standalone world0 0" "can_serialise world0 0" by (rule world0_standalone)+
  have i: "icons (heap world0 0) = Some js_empty" by (rule world0_fields)
  have g: "js_get js_empty 3 = None" by (simp add: js_get_def js_empty_def)
  note C1 = C1_add [OF h i, of 5 icon_a 3 icon_a icon_b]
  have 1: "\<exists>w'. add 5 0 icon_a 3 world0 = Ret () w'
         \<and> icons (heap w' 0) = Some (js_set js_empty 3 (Some icon_a))
         \<and> numIcons (heap w' 0) = 1
         \<and> currentIcon (heap w' 0) = Some icon_a \<and> currentPriority (heap w' 0) = 3"
    using C1 by (simp add: world0_fields g) blast
  have 2: "\<exists>w1 w2. add 5 0 icon_a 3 world0 = Ret () w1 \<and> add 5 0 icon_b 1 w1 = Ret () w2
         \<and> getCurrentIcon 5 0 w2 = Ret (Some icon_a) w2"
    using C1 by (simp add: world0_fields)
  from h i 1 2 show ?thesis by blast
qed

section \<open>C2: a master is assigned, then destroyed\<close>

text \<open>
  Two live delegates that have no master and no relays of others; the master
  \<open>m\<close> has the current icon \<open>x\<close>. The assignment \<open>master = m\<close> returns, and
  \<open>getCurrentIcon()\<close> of the delegate returns \<open>x\<close>, which is what
  \<open>m.getCurrentIcon()\<close> returns. When \<open>m\<close> is destroyed, the master of the
  delegate becomes \<open>null\<close>, with a master-change and an icon-change event of
  the delegate; a delegate that holds no icon of its own then issues a query
  and returns \<open>null\<close>.
\<close>

lemma master_assigned_then_destroyed:
  assumes dm: "d \<noteq> m" and sd: "standalone w d" and sm: "standalone w m"
    and x: "currentIcon (heap w m) = Some x" and r: "resource (heap w d) = Some r"
    and n: "6 \<le> n"
  shows "\<exists>w1 w2. set_master n d (Some m) w = Ret () w1
           \<and> get_master d w1 = Some (MDelegate m)
           \<and> getCurrentIcon n m w1 = Ret (Some x) w1
           \<and> getCurrentIcon n d w1 = Ret (Some x) w1
           \<and> destroy n m w1 = Ret () w2
           \<and> destroyed (heap w2 m) \<and> get_master d w2 = None \<and> delegated (heap w2 d)
           \<and> events w2 = events w1 @
                 [(m, DidDestroy), (d, DidChangeMaster (Some (MDelegate m)) None),
                  (d, DidChangeIcon (currentIcon (heap w d)) None)]
           \<and> (numIcons (heap w d) \<le> 0 \<and> strategy w r = []
                \<longrightarrow> getCurrentIcon n d w2 = Ret None (w2\<lparr>queries := queries w2 @ [Some r]\<rparr>))"
proof -
  from n obtain k where k: "n = Suc (Suc (Suc (Suc (Suc (Suc k)))))"
    using ge6 by blast
  let ?wA = "define_accessors d w"
  let ?w1 = "emit_log d (DidChangeIcon (currentIcon (heap w d)) (Some x))
              (emit_log d (DidChangeMaster None (Some (MDelegate m))) (attach d m ?wA))"
  let ?w0 = "emit_log m DidDestroy (upd m (\<lambda>D. D\<lparr>destroyed := True\<rparr>) ?w1)"
  let ?w2 = "cleared m
       (emit_log d (DidChangeIcon (originalIcon (heap ?w1 d)) None)
         (emit_log d (DidChangeMaster (Some (MDelegate m)) None) (detach d ?w0)))"
  have d: "\<not> delegated (heap w d)" "emitter (heap w d) = Some no_handlers"
    using sd by (simp_all add: standalone_def)
  have m: "\<not> delegated (heap w m)" "emitter (heap w m) = Some no_handlers"
    "\<not> destroyed (heap w m)"
    using sm by (simp_all add: standalone_def)
  from sm obtain ds where ds: "disposables (heap w m) = Some ds"
    by (auto simp add: standalone_def)
  have mA: "emitter (heap ?wA m) = Some no_handlers" "disposable (heap ?wA d) = None"
    using dm m by simp_all
  note att = attach_fields [OF dm mA]
  have 1: "set_master n d (Some m) w = Ret () ?w1"
    unfolding k by (rule set_master_resolved [OF dm sd m(1,2) x])
  have d1: "delegated (heap ?w1 d)" "masterDelegate (heap ?w1 d) = Some (MDelegate m)"
      "disposable (heap ?w1 d) = Some m" "emitter (heap ?w1 d) = Some no_handlers"
      "originalIcon (heap ?w1 d) = currentIcon (heap w d)"
    using d by (simp_all add: att)
  have m1: "\<not> delegated (heap ?w1 m)" "currentIcon (heap ?w1 m) = Some x"
      "\<not> destroyed (heap ?w1 m)" "emitter (heap ?w1 m) = Some (only_relay d)"
      "disposables (heap ?w1 m) = Some ds"
    using dm m x ds by (simp_all add: att only_relay_def no_handlers_def)
  have 2: "get_master d ?w1 = Some (MDelegate m)" using d1 by (simp add: get_master_def)
  have 3: "getCurrentIcon n m ?w1 = Ret (Some x) ?w1"
    unfolding k fuelled_Suc_defs by (rule getCurrentIcon_own_some [OF m1(1,2)])
  have 4: "getCurrentIcon n d ?w1 = Ret (Some x) ?w1"
    unfolding k fuelled_Suc_defs by (rule getCurrentIcon_via_master [OF d1(1,2) m1(1,2)])
  have 5: "destroy n m ?w1 = Ret () ?w2"
    unfolding k by (rule destroy_master [OF dm d1(1-4) m1(3-5)])
  have d0: "disposable (heap ?w0 d) = Some m" "emitter (heap ?w0 m) = Some (only_relay d)"
    using dm d1 m1 by simp_all
  note det = detach_fields [OF dm d0]
  have h2: "heap ?w2 d = (heap ?w1 d)\<lparr>masterDelegate := None, disposable := None\<rparr>"
    using dm by (simp add: det)
  have 6: "destroyed (heap ?w2 m)" using dm by (simp add: det)
  have 7: "get_master d ?w2 = None" "delegated (heap ?w2 d)"
    unfolding get_master_def h2 using d1 by simp_all
  have 8: "events ?w2 = events ?w1 @
                 [(m, DidDestroy), (d, DidChangeMaster (Some (MDelegate m)) None),
                  (d, DidChangeIcon (currentIcon (heap w d)) None)]"
    using d1(5) by (simp add: det)
  have 10: "getCurrentIcon n d ?w2 = Ret None (?w2\<lparr>queries := queries ?w2 @ [Some r]\<rparr>)"
    if e: "numIcons (heap w d) \<le> 0" "strategy w r = []"
  proof -
    have "masterDelegate (heap ?w2 d) = None" "numIcons (heap ?w2 d) \<le> 0"
      "resource (heap ?w2 d) = Some r"
      unfolding h2 using e r by (simp_all add: att)
    moreover have "strategy ?w2 r = []" using e by (simp add: att det)
    ultimately have "masterDelegate (heap ?w2 d) = None" "numIcons (heap ?w2 d) \<le> 0"
      "resource (heap ?w2 d) = Some r" "strategy ?w2 r = []" by blast+
    with 7(2) show ?thesis
      unfolding k fuelled_Suc_defs by (intro getCurrentIcon_orphan_empty)
  qed
  from 1 2 3 4 5 6 7 8 10 show ?thesis by blast
qed

text \<open>
  C2: after \<open>master = M\<close>, \<open>getCurrentIcon()\<close> returns what \<open>M.getCurrentIcon()\<close>
  returns, and when \<open>M\<close> is destroyed the master becomes \<open>null\<close> and
  \<open>getCurrentIcon()\<close> resolves again from the delegate's own icons. The code at
  two inputs; in \<open>world_ab\<close> the delegate at 2 holds \<open>icon_b\<close> at slot 2.

  It takes the delegate at 0 for its master and returns the master's \<open>icon_a\<close>;
  the master is destroyed and the master of 2 is \<open>null\<close>; then
  \<open>getCurrentIcon()\<close> finds \<open>icon_b\<close> in its own icons, and \<open>setCurrentIcon\<close>
  throws a TypeError at \<open>this.currentIcon = to\<close>, the property being an accessor
  without a setter.

  It takes the delegate at 3 for its master instead, which is alive and has no
  icon: \<open>M.getCurrentIcon()\<close> returns \<open>null\<close>, and \<open>getCurrentIcon()\<close> of the
  delegate goes on to its own icons, finds \<open>icon_b\<close> and throws at the same
  assignment.
\<close>

theorem C2_own_icon_throws:
  "set_master 6 2 (Some 0) world_ab = Ret () world_linked
   \<and> getCurrentIcon 6 0 world_linked = Ret (Some icon_a) world_linked
   \<and> getCurrentIcon 6 2 world_linked = Ret (Some icon_a) world_linked
   \<and> destroy 6 0 world_linked = Ret () world_orphaned
   \<and> get_master 2 world_orphaned = None
   \<and> numIcons (heap world_orphaned 2) = 1
   \<and> icons (heap world_orphaned 2) = Some (js_set js_empty 2 (Some icon_b))
   \<and> getCurrentIcon 6 2 world_orphaned = Throw TypeError world_orphaned
   \<and> set_master 6 2 (Some 3) world_ab = Ret () world_unresolved
   \<and> get_master 2 world_unresolved = Some (MDelegate 3)
   \<and> \<not> destroyed (heap world_unresolved 3)
   \<and> getCurrentIcon 6 3 world_unresolved =
        Ret None (world_unresolved\<lparr>queries := queries world_unresolved @ [Some dir_r]\<rparr>)
   \<and> getCurrentIcon 6 2 world_unresolved =
        Throw TypeError
          (world_unresolved\<lparr>queries := queries world_unresolved @ [Some dir_r, Some dir_r]\<rparr>)"
proof -
  have six: "6 = Suc (Suc (Suc (Suc (Suc (Suc 0)))))" by simp
  have dm: "(2::nat) \<noteq> 0" by simp
  note 1 = world_linked_fields(1)
  note d1 = world_linked_fields(2-6)
  note m1 = world_linked_fields(7-10)
  note hl = world_linked_fields(12,13)
  from world_linked_fields(11) obtain ds where ds: "disposables (heap world_linked 0) = Some ds"
    by blast
  have 2: "getCurrentIcon 6 0 world_linked = Ret (Some icon_a) world_linked"
    "getCurrentIcon 6 2 world_linked = Ret (Some icon_a) world_linked"
    unfolding six fuelled_Suc_defs
    by (rule getCurrentIcon_own_some [OF m1(1,2)])
       (rule getCurrentIcon_via_master [OF d1(1,2) m1(1,2)])
  have 3: "destroy 6 0 world_linked = Ret () world_orphaned"
    unfolding six world_orphaned_def
    using destroy_master [OF dm d1(1-4) m1(3,4) ds] by (simp add: d1(5))
  let ?w0 = "emit_log 0 DidDestroy (upd 0 (\<lambda>D. D\<lparr>destroyed := True\<rparr>) world_linked)"
  have d0: "disposable (heap ?w0 2) = Some 0" "emitter (heap ?w0 0) = Some (only_relay 2)"
    using d1 m1 by simp_all
  note det = detach_fields [OF dm d0]
  have h2: "heap world_orphaned 2
              = (heap world_linked 2)\<lparr>masterDelegate := None, disposable := None\<rparr>"
    by (simp add: world_orphaned_def det)
  have 4: "get_master 2 world_orphaned = None" "delegated (heap world_orphaned 2)"
    "masterDelegate (heap world_orphaned 2) = None"
    unfolding get_master_def h2 using d1 by simp_all
  have 5: "numIcons (heap world_orphaned 2) = 1"
    "icons (heap world_orphaned 2) = Some (js_set js_empty 2 (Some icon_b))"
    unfolding h2 by (simp_all add: hl world_ab_fields)
  have sc: "scan (js_set js_empty 2 (Some icon_b)) (alen (js_set js_empty 2 (Some icon_b)))
              = Some (2, icon_b)"
    by (simp add: js_set_def js_empty_def js_get_def eval_nat_numeral)
  have 6: "getCurrentIcon 6 2 world_orphaned = Throw TypeError world_orphaned"
    unfolding six fuelled_Suc_defs
    by (rule getCurrentIcon_orphan_throws [OF 4(2,3) _ 5(2) sc]) (simp add: 5)
  note u = world_unresolved_fields
  have 7: "get_master 2 world_unresolved = Some (MDelegate 3)"
    "\<not> destroyed (heap world_unresolved 3)"
    by (simp_all add: get_master_def u fresh_def)
  have m3: "\<not> delegated (heap world_unresolved 3)" "currentIcon (heap world_unresolved 3) = None"
      "numIcons (heap world_unresolved 3) \<le> 0" "resource (heap world_unresolved 3) = Some dir_r"
      "strategy world_unresolved dir_r = []"
    by (simp_all add: u fresh_def)
  have d3: "delegated (heap world_unresolved 2)"
      "masterDelegate (heap world_unresolved 2) = Some (MDelegate 3)"
      "0 < numIcons (heap world_unresolved 2)"
      "icons (heap world_unresolved 2) = Some (js_set js_empty 2 (Some icon_b))"
    by (simp_all add: u world_ab_fields)
  have 8: "getCurrentIcon 6 3 world_unresolved =
        Ret None (world_unresolved\<lparr>queries := queries world_unresolved @ [Some dir_r]\<rparr>)"
    unfolding six fuelled_Suc_defs by (rule getCurrentIcon_unresolved [OF m3])
  have 9: "getCurrentIcon 6 2 world_unresolved =
        Throw TypeError
          (world_unresolved\<lparr>queries := queries world_unresolved @ [Some dir_r, Some dir_r]\<rparr>)"
    unfolding six fuelled_Suc_defs by (rule getCurrentIcon_delegated_throws [OF d3 sc m3])
  from 1 2 3 4(1) 5 6 u(1) 7 8 9 show ?thesis by blast
qed

section \<open>C10: the guard of the first assignment of a master\<close>

text \<open>
  C10. On a delegate that has never been given a master, the assignments
  \<open>master = null\<close> (or \<open>undefined\<close>) and \<open>master = m\<close>, where the master of \<open>m\<close>
  is the delegate itself, return at once with any fuel and leave the world as
  it is: the delegate stays without accessors, no field of any delegate
  changes and no event is emitted.
\<close>

theorem C10_first_assignment_guard:
  assumes "\<not> delegated (heap w d)"
  shows "set_master n d None w = Ret () w
         \<and> (get_master m w = Some (MDelegate d) \<longrightarrow> set_master n d (Some m) w = Ret () w)"
  using assms by (simp add: set_master_def)

theorem C10_witness:
  "\<not> delegated (heap world_linked 0) \<and> get_master 2 world_linked = Some (MDelegate 0)
   \<and> set_master 6 0 None world_linked = Ret () world_linked
   \<and> set_master 6 0 (Some 2) world_linked = Ret () world_linked"
proof -
  have g: "get_master 2 world_linked = Some (MDelegate 0)"
    by (simp add: get_master_def world_linked_fields)
  from C10_first_assignment_guard [OF world_linked_fields(7), of 6 2] g world_linked_fields(7)
  show ?thesis by simp
qed

section \<open>C7: deferred callbacks after destroy\<close>

text \<open>
  C7, as stated: a deferred operation that runs after the delegate has been
  destroyed checks \<open>destroyed\<close> and takes no effect: no mutation, no query, no
  error. The source has no such check. The delegate at 0 deserialises a cached
  icon and schedules its query, is destroyed, and the callback then calls
  \<open>StrategyManager.query\<close> with the cleared resource, \<open>null\<close>. With the table
  not loaded it schedules the retry, is destroyed, and the retry throws a
  TypeError at \<open>const {path, isDirectory} = this.resource\<close>.
\<close>

theorem C7_counterexample:
  "deserialise 5 0 world_cached = Ret () world_cached_1
   \<and> immediates world_cached_1 = [QueryTask 0]
   \<and> destroy 6 0 world_cached_1 = Ret () (torn_down 0 world_cached_1)
   \<and> destroyed (heap (torn_down 0 world_cached_1) 0)
   \<and> run_task 6 (QueryTask 0) (torn_down 0 world_cached_1)
       = Ret () ((torn_down 0 world_cached_1)
                   \<lparr>queries := queries (torn_down 0 world_cached_1) @ [None]\<rparr>)
   \<and> deserialise 5 0 world_unloaded = Ret () world_unloaded_1
   \<and> immediates world_unloaded_1 = [RetryDeserialise 0]
   \<and> destroy 6 0 world_unloaded_1 = Ret () (torn_down 0 world_unloaded_1)
   \<and> run_task 6 (RetryDeserialise 0) (torn_down 0 world_unloaded_1)
       = Throw TypeError (torn_down 0 world_unloaded_1)"
proof -
  have six: "6 = Suc (Suc (Suc (Suc (Suc (Suc 0)))))" by simp
  from world_cached_1_fields(3) obtain ds where "disposables (heap world_cached_1 0) = Some ds"
    by blast
  from destroy_standalone [OF world_cached_1_fields(1,2) this]
  have 1: "destroy 6 0 world_cached_1 = Ret () (torn_down 0 world_cached_1)"
    unfolding six .
  from world_unloaded_1_fields(3) obtain ds' where
    "disposables (heap world_unloaded_1 0) = Some ds'" by blast
  from destroy_standalone [OF world_unloaded_1_fields(1,2) this]
  have 2: "destroy 6 0 world_unloaded_1 = Ret () (torn_down 0 world_unloaded_1)"
    unfolding six .
  have 3: "run_task 6 (QueryTask 0) (torn_down 0 world_cached_1)
       = Ret () ((torn_down 0 world_cached_1)
                   \<lparr>queries := queries (torn_down 0 world_cached_1) @ [None]\<rparr>)"
    unfolding six by (simp add: run_task_def query_body_def Let_def)
  have 4: "run_task 6 (RetryDeserialise 0) (torn_down 0 world_unloaded_1)
       = Throw TypeError (torn_down 0 world_unloaded_1)"
    by (simp add: run_task_def deserialise_def)
  show ?thesis
    using deserialise_world_cached deserialise_world_unloaded world_cached_1_fields(4)
      world_unloaded_1_fields(4) 1 2 3 4 by simp
qed

text \<open>
  C7, amended. The deferred operations do not look at \<open>destroyed\<close>. Run on a
  delegate whose resource has been cleared by \<open>destroy\<close>, the callback of the
  query still calls \<open>StrategyManager.query\<close>, with \<open>null\<close> for the resource, and
  changes nothing else; the retry of the deserialisation leaves the world as
  it is.
\<close>

theorem C7_deferred_after_destroy:
  assumes "resource (heap w d) = None" and "1 \<le> n"
  shows "run_task n (QueryTask d) w = Ret () (w\<lparr>queries := queries w @ [None]\<rparr>)
         \<and> world_of (run_task n (RetryDeserialise d) w) = Some w"
proof -
  from assms(2) obtain k where "n = Suc k" by (cases n) simp_all
  then show ?thesis using assms(1)
    by (simp add: run_task_def query_body_def deserialise_def world_of_def Let_def)
qed

theorem C7_witness:
  "resource (heap (torn_down 0 world_cached_1) 0) = None
   \<and> run_task 6 (QueryTask 0) (torn_down 0 world_cached_1)
       = Ret () ((torn_down 0 world_cached_1)
                   \<lparr>queries := queries (torn_down 0 world_cached_1) @ [None]\<rparr>)
   \<and> world_of (run_task 6 (RetryDeserialise 0) (torn_down 0 world_cached_1))
       = Some (torn_down 0 world_cached_1)"
proof -
  have r: "resource (heap (torn_down 0 world_cached_1) 0) = None" by simp
  from C7_deferred_after_destroy [OF r, of 6] r show ?thesis by simp
qed

section \<open>C8: destroy\<close>




section \<open>C9: deserialise with a cached tuple and a loaded table\<close>

text \<open>
  On a live delegate that owns its icon and has no relays, with a cached tuple
  under the path of its resource and the table of the resource loaded,
  \<open>deserialise\<close> returns. If the table has an icon at \<open>iconIndex\<close> whose class
  name is the cached \<open>iconClass\<close>, the icon is added with \<open>add(icon, priority)\<close>
  and the path keeps a cache entry; otherwise nothing is added and the cache
  entry of the path is deleted. In both cases the strategy query of the
  delegate is appended to the callbacks of \<open>setImmediate\<close>.
\<close>

lemma deserialise_undelegated:
  assumes "standalone w d" and "resource (heap w d) = Some r"
    and "storage_icons w (path r) = Some tup" and "iconList_of w r = Some tbl"
    and "icons (heap w d) = Some a" and "5 \<le> n"
  shows "\<exists>w'. deserialise n d w = Ret () w'
           \<and> immediates w' = immediates w @ [QueryTask d]
           \<and> (case table_get tbl (c_iconIndex tup) of
                 None \<Rightarrow> w' = discarded d (path r) w \<and> storage_icons w' (path r) = None
               | Some ic \<Rightarrow>
                   if icon_name ic = c_iconClass tup
                   then (\<exists>w1. add n d ic (c_priority tup) w = Ret () w1
                           \<and> w' = w1\<lparr>immediates := immediates w1 @ [QueryTask d]\<rparr>
                           \<and> storage_icons w' (path r) \<noteq> None)
                   else w' = discarded d (path r) w \<and> storage_icons w' (path r) = None)"
proof -
  have cs: "can_serialise w d" using assms(2,4) by (simp add: can_serialise_def)
  note A = add_added [OF assms(1) cs assms(5,6)]
  have k: "storage_icons (added d a ic p w) (path r) \<noteq> None" for ic p
    using added_keeps_entry [OF assms(2,4)] assms(3) by simp
  show ?thesis
    unfolding deserialise_standalone [OF assms]
    by (simp add: A k discarded_def split: option.splits)
qed

lemma deserialise_undelegated_examples:
  "standalone world_cached 0 \<and> resource (heap world_cached 0) = Some file_r
   \<and> storage_icons world_cached (path file_r) \<noteq> None
   \<and> (\<exists>w'. deserialise 5 0 world_cached = Ret () w'
         \<and> immediates w' = [QueryTask 0]
         \<and> (\<exists>w1. add 5 0 icon_a 3 world_cached = Ret () w1
               \<and> w' = w1\<lparr>immediates := immediates w1 @ [QueryTask 0]\<rparr>
               \<and> storage_icons w' (path file_r) \<noteq> None))
   \<and> (\<exists>w'. deserialise 5 0 world_stale = Ret () w'
         \<and> immediates w' = [QueryTask 0]
         \<and> w' = discarded 0 (path file_r) world_stale
         \<and> storage_icons w' (path file_r) = None)"
proof -
  have c: "storage_icons world_cached (path file_r) =
     Some \<lparr>c_priority = 3, c_iconIndex = 0, c_iconClass = ''icon-a'', c_colourClasses = []\<rparr>"
    by (simp add: world_cached_fields)
  have s: "storage_icons world_stale (path file_r) =
     Some \<lparr>c_priority = 3, c_iconIndex = 0, c_iconClass = ''icon-old'', c_colourClasses = []\<rparr>"
    by (simp add: world_stale_fields world_cached_fields(4))
  from deserialise_undelegated [OF world_cached_fields(1,3) c world_cached_fields(6,7), of 5]
  have 1: "\<exists>w'. deserialise 5 0 world_cached = Ret () w'
         \<and> immediates w' = [QueryTask 0]
         \<and> (\<exists>w1. add 5 0 icon_a 3 world_cached = Ret () w1
               \<and> w' = w1\<lparr>immediates := immediates w1 @ [QueryTask 0]\<rparr>
               \<and> storage_icons w' (path file_r) \<noteq> None)"
    by (simp add: table_get_example world_cached_fields(8))
  from deserialise_undelegated [OF world_stale_fields(1,2) s world_stale_fields(4,5), of 5]
  have 2: "\<exists>w'. deserialise 5 0 world_stale = Ret () w'
         \<and> immediates w' = [QueryTask 0]
         \<and> w' = discarded 0 (path file_r) world_stale
         \<and> storage_icons w' (path file_r) = None"
    by (simp add: table_get_example world_stale_fields(6))
  from 1 2 world_cached_fields(1,3) c show ?thesis by simp
qed

text \<open>
  C9: with the table loaded, the cached tuple is accepted with
  \<open>add(icon, priority)\<close> when the table agrees with it, and in either case the
  strategy query is scheduled. The code at an input where it is not: the
  delegate at 2 is constructed while the file table has not loaded, with an
  agreeing cache entry under its path, so \<open>deserialise\<close> schedules its retry;
  the delegate is given the delegate at 0 for its master; the table loads and
  the retry runs. The table agrees with the tuple and \<open>add(icon_a, 3)\<close> is
  called: it stores the icon and counts it, and \<open>setCurrentIcon\<close> throws a
  TypeError at \<open>this.currentIcon = to\<close>, the property being an accessor without
  a setter. The error leaves \<open>deserialise\<close> before \<open>setImmediate\<close> is reached: no
  query is scheduled.
\<close>

theorem C9_retry_on_delegated_throws:
  "deserialise 5 2 world_link_cached = Ret () world_link_retry
   \<and> immediates world_link_retry = [RetryDeserialise 2]
   \<and> set_master 6 2 (Some 0) world_link_retry = Ret () world_link_delegated
   \<and> world_link_loaded = world_link_delegated\<lparr>fileIcons := Some [icon_a, icon_b]\<rparr>
   \<and> storage_icons world_link_loaded (path link_r) = Some
        \<lparr>c_priority = 3, c_iconIndex = 0, c_iconClass = ''icon-a'', c_colourClasses = []\<rparr>
   \<and> iconList_of world_link_loaded link_r = Some [icon_a, icon_b]
   \<and> table_get [icon_a, icon_b] 0 = Some icon_a \<and> icon_name icon_a = ''icon-a''
   \<and> add 6 2 icon_a 3 world_link_loaded = Throw TypeError world_link_thrown
   \<and> run_task 6 (RetryDeserialise 2) world_link_loaded = Throw TypeError world_link_thrown
   \<and> numIcons (heap world_link_loaded 2) = 0
   \<and> numIcons (heap world_link_thrown 2) = 1
   \<and> icons (heap world_link_thrown 2) = Some (js_set js_empty 3 (Some icon_a))
   \<and> immediates world_link_thrown = [RetryDeserialise 2]"
proof -
  have 1: "immediates world_link_retry = [RetryDeserialise 2]"
    by (simp add: world_link_retry_def)
  have 2: "storage_icons world_link_loaded (path link_r) = Some
        \<lparr>c_priority = 3, c_iconIndex = 0, c_iconClass = ''icon-a'', c_colourClasses = []\<rparr>"
    by (simp add: world_link_cached_fields(7) world_link_loaded_fields)
  have 3: "numIcons (heap world_link_loaded 2) = 0"
    by (simp add: world_link_loaded_fields world_link_delegated_fields fresh_def)
  show ?thesis
    using deserialise_world_link_cached 1 world_link_delegated_fields(1) world_link_loaded_def 2
      world_link_loaded_fields(6) table_get_example add_world_link_loaded
      run_retry_world_link_loaded 3 world_link_thrown_fields
    by blast
qed

section \<open>C5: setCurrentIcon(null)\<close>

text \<open>
  C5, as stated: \<open>setCurrentIcon(null)\<close> emits exactly one icon-change event,
  for a file as for a directory. In \<open>world_a3\<close> the file at 0 has \<open>icon_a\<close>
  current and in slot 3. \<open>setCurrentIcon(null)\<close> calls \<open>getCurrentIcon()\<close>, which
  finds \<open>icon_a\<close> and promotes it through \<open>setCurrentIcon(icon_a, 3)\<close>: that
  call emits \<open>{from: null, to: icon_a}\<close>, and the outer call then emits
  \<open>{from: icon_a, to: icon_a}\<close>. Two events.
\<close>

theorem C5_counterexample:
  "currentIcon (heap world_a3 0) = Some icon_a
   \<and> returned (setCurrentIcon 6 0 None None world_a3)
   \<and> events (the (world_of (setCurrentIcon 6 0 None None world_a3))) =
       events world_a3 @ [(0, DidChangeIcon None (Some icon_a)),
                          (0, DidChangeIcon (Some icon_a) (Some icon_a))]"
proof -
  have n: "0 < numIcons (heap world_a3 0)" by (simp add: world_a3_fields)
  note e = setCurrentIcon_null_found [OF world_a3_fields(1,2,4) world_a3_file(1,2) n
      world_a3_fields(3) scan_a3 order_refl, of None]
  show ?thesis unfolding e by (simp add: world_a3_fields returned_def world_of_def)
qed

text \<open>
  C5, amended. Let the delegate be alive, own its icon, have no relays and a
  current icon \<open>from\<close>, and let the cache be writable. On a directory,
  \<open>setCurrentIcon(null)\<close> leaves the current icon \<open>null\<close>, serialises and emits
  the one event \<open>{from, null}\<close>. On a file it runs \<open>getCurrentIcon()\<close> at once;
  with fuel for the adds of the strategy that call returns some \<open>to'\<close>, the
  icon then current (\<open>null\<close> or not), and \<open>setCurrentIcon(null)\<close> serialises and
  ends with the event \<open>{from, to'}\<close>, after the events of the resolution, also
  when \<open>to'\<close> is \<open>from\<close>. Where the resolution finds the icon \<open>ic\<close> in the
  delegate's own icons, the events of the call are \<open>{null, ic}\<close> and then
  \<open>{from, ic}\<close>.
\<close>

theorem C5_setCurrentIcon_null:
  assumes sd: "standalone w d" and cs: "can_serialise w d"
    and cur: "currentIcon (heap w d) = Some from"
    and r: "resource (heap w d) = Some r" and a: "icons (heap w d) = Some a"
  shows "(isDirectory r \<and> 4 \<le> n \<longrightarrow>
            setCurrentIcon n d None p w =
              Ret () (emit_log d (DidChangeIcon (Some from) None)
                        (serialised d (assign_current d None p w))))
       \<and> (\<not> isDirectory r \<and> length (strategy w r) + 9 \<le> n \<longrightarrow>
            (\<exists>to' w4. getCurrentIcon n d (assign_current d None p w) = Ret to' w4
               \<and> to' = currentIcon (heap w4 d)
               \<and> setCurrentIcon (Suc n) d None p w =
                   Ret () (emit_log d (DidChangeIcon (Some from) to') (serialised d w4))))
       \<and> (\<not> isDirectory r \<and> 0 < numIcons (heap w d) \<and> scan a (alen a) = Some (i, ic)
            \<and> 6 \<le> n \<longrightarrow>
            setCurrentIcon n d None p w =
              Ret () (emit_log d (DidChangeIcon (Some from) (Some ic))
                (serialised d
                  (emit_log d (DidChangeIcon None (Some ic))
                    (serialised d (assign_current d (Some ic) (Some (int i))
                       (assign_current d None p w)))))))"
proof (intro conjI impI)
  assume h: "isDirectory r \<and> 4 \<le> n"
  then obtain k where "n = Suc (Suc (Suc (Suc k)))" using ge4 by blast
  then show "setCurrentIcon n d None p w =
              Ret () (emit_log d (DidChangeIcon (Some from) None)
                        (serialised d (assign_current d None p w)))"
    using setCurrentIcon_null_dir [OF sd cs cur r] h by simp
next
  assume h: "\<not> isDirectory r \<and> length (strategy w r) + 9 \<le> n"
  then have "3 \<le> n" by simp
  then obtain k where k: "n = Suc (Suc (Suc k))" by (metis ge2 Suc_le_D Suc_le_mono numeral_3_eq_3 numeral_2_eq_2)
  let ?w3 = "assign_current d None p w"
  have s3: "standalone ?w3 d" "can_serialise ?w3 d" "currentIcon (heap ?w3 d) = None"
    "resource (heap ?w3 d) = Some r"
    using sd cs r by simp_all
  have "length (strategy ?w3 r) + 8 \<le> n" using h by simp
  from getCurrentIcon_standalone [OF s3 this] obtain to' w4 where
    g: "m_getCurrentIcon (fuelled n) d ?w3 = Ret to' w4" "to' = currentIcon (heap w4 d)"
       "settled ?w3 w4 d" by blast
  from g(3) have s4: "standalone w4 d" "can_serialise w4 d" by (simp_all add: settled_def)
  have g': "getCurrentIcon_body (fuelled (Suc (Suc k))) d ?w3 = Ret to' w4"
    using g(1) by (simp add: k)
  have "setCurrentIcon (Suc n) d None p w =
          Ret () (emit_log d (DidChangeIcon (Some from) to') (serialised d w4))"
    unfolding k fuelled_Suc_defs
    using h by (intro setCurrentIcon_null_file [OF sd cs cur r _ g' s4]) simp
  with g(1,2) show "\<exists>to' w4. getCurrentIcon n d ?w3 = Ret to' w4
               \<and> to' = currentIcon (heap w4 d)
               \<and> setCurrentIcon (Suc n) d None p w =
                   Ret () (emit_log d (DidChangeIcon (Some from) to') (serialised d w4))"
    by (simp add: getCurrentIcon_def)
next
  assume h: "\<not> isDirectory r \<and> 0 < numIcons (heap w d) \<and> scan a (alen a) = Some (i, ic)
            \<and> 6 \<le> n"
  then show "setCurrentIcon n d None p w =
              Ret () (emit_log d (DidChangeIcon (Some from) (Some ic))
                (serialised d
                  (emit_log d (DidChangeIcon None (Some ic))
                    (serialised d (assign_current d (Some ic) (Some (int i))
                       (assign_current d None p w))))))"
    using setCurrentIcon_null_found [OF sd cs cur r _ _ a] by blast
qed

theorem C5_witness:
  "standalone world_dir 3 \<and> can_serialise world_dir 3 \<and> isDirectory dir_r
   \<and> resource (heap world_dir 3) = Some dir_r \<and> currentIcon (heap world_dir 3) = Some icon_a
   \<and> setCurrentIcon 4 3 None None world_dir =
        Ret () (emit_log 3 (DidChangeIcon (Some icon_a) None)
                  (serialised 3 (assign_current 3 None None world_dir)))
   \<and> standalone world_a3 0 \<and> can_serialise world_a3 0 \<and> \<not> isDirectory file_r
   \<and> resource (heap world_a3 0) = Some file_r \<and> currentIcon (heap world_a3 0) = Some icon_a
   \<and> (\<exists>to' w4. getCurrentIcon 9 0 (assign_current 0 None None world_a3) = Ret to' w4
         \<and> to' = currentIcon (heap w4 0)
         \<and> setCurrentIcon 10 0 None None world_a3 =
             Ret () (emit_log 0 (DidChangeIcon (Some icon_a) to') (serialised 0 w4)))
   \<and> setCurrentIcon 6 0 None None world_a3 =
        Ret () (emit_log 0 (DidChangeIcon (Some icon_a) (Some icon_a))
          (serialised 0
            (emit_log 0 (DidChangeIcon None (Some icon_a))
              (serialised 0 (assign_current 0 (Some icon_a) (Some 3)
                 (assign_current 0 None None world_a3))))))"
proof -
  note D = C5_setCurrentIcon_null [OF world_dir_fields(1-5), of 4 None 0 icon_a]
  note F = C5_setCurrentIcon_null [OF world_a3_fields(1,2,4) world_a3_file(1) world_a3_fields(3),
      of _ None 3 icon_a]
  have 1: "setCurrentIcon 4 3 None None world_dir =
        Ret () (emit_log 3 (DidChangeIcon (Some icon_a) None)
                  (serialised 3 (assign_current 3 None None world_dir)))"
    using D world_dir_fields(6) by simp
  have st: "strategy world_a3 file_r = []" by (rule world_a3_other)
  have 2: "\<exists>to' w4. getCurrentIcon 9 0 (assign_current 0 None None world_a3) = Ret to' w4
         \<and> to' = currentIcon (heap w4 0)
         \<and> setCurrentIcon 10 0 None None world_a3 =
             Ret () (emit_log 0 (DidChangeIcon (Some icon_a) to') (serialised 0 w4))"
    using F [of 9] world_a3_file(2) st by simp
  have 3: "setCurrentIcon 6 0 None None world_a3 =
        Ret () (emit_log 0 (DidChangeIcon (Some icon_a) (Some icon_a))
          (serialised 0
            (emit_log 0 (DidChangeIcon None (Some icon_a))
              (serialised 0 (assign_current 0 (Some icon_a) (Some 3)
                 (assign_current 0 None None world_a3))))))"
    using F [of 6] world_a3_file(2) scan_a3 world_a3_fields(6) by simp
  from 1 2 3 world_dir_fields world_a3_fields world_a3_file show ?thesis by blast
qed

section \<open>C4: numIcons counts the icons\<close>

text \<open>
  C4. A fresh delegate satisfies the invariant: \<open>numIcons\<close> is the number of
  slots of \<open>icons\<close> that are not empty. From a world where every delegate
  satisfies it, every operation (the constructor, \<open>add\<close>, \<open>remove\<close>,
  \<open>deserialise\<close>, \<open>setCurrentIcon\<close>, \<open>getCurrentIcon\<close>, a strategy query, a
  deferred callback, the assignment of a master, \<open>destroy\<close>) ends in a world
  where every delegate satisfies it, whether the call returns or throws, with
  any fuel, for delegates with or without a master and with or without relays.
\<close>

theorem C4_numIcons_invariant:
  assumes "all_ok w"
  shows "numIcons_ok (fresh r)
       \<and> keeps (construct n r w)
       \<and> keeps (add n d ic p w)
       \<and> keeps (remove n d ic p w)
       \<and> keeps (deserialise n d w)
       \<and> keeps (setCurrentIcon n d to q w)
       \<and> keeps (getCurrentIcon n d w)
       \<and> keeps (query n d w)
       \<and> keeps (run_task n t w)
       \<and> keeps (set_master n d input w)
       \<and> keeps (destroy n d w)"
  using assms
  by (simp add: numIcons_ok_fresh construct_keeps remove_keeps deserialise_keeps
      set_master_keeps destroy_keeps add_def setCurrentIcon_def getCurrentIcon_def query_def
      fuelled_keeps run_task_def split: task.splits)

theorem C4_witness:
  "all_ok world0
   \<and> add 5 0 icon_a 3 world0 = Ret () world_a3
   \<and> keeps (add 5 0 icon_a 3 world0)
   \<and> numIcons_ok (heap world_a3 0)
   \<and> icons (heap world_a3 0) = Some (js_set js_empty 3 (Some icon_a))
   \<and> filled (js_set js_empty 3 (Some icon_a)) = {3}
   \<and> numIcons (heap world_a3 0) = 1"
proof -
  from C4_numIcons_invariant [OF all_ok_world0, of _ 5 0 icon_a 3]
  have k: "keeps (add 5 0 icon_a 3 world0)" by blast
  then have "all_ok world_a3" by (simp add: add_world0)
  then have "numIcons_ok (heap world_a3 0)" by (simp add: all_ok_def)
  moreover have "filled (js_set js_empty 3 (Some icon_a)) = {3}"
    by (simp add: filled_set) (simp add: filled_def js_empty_def)
  ultimately show ?thesis
    using k all_ok_world0 add_world0 world_a3_fields(3,6) by simp
qed

end
